theory Spec2Isabelle
  imports Complex_Main "HOL-Library.Multiset"
begin

section \<open>Numbers, tensors and errors\<close>

text \<open>
  The network of \<^verbatim>\<open>training/model.py\<close> computes on float32 tensors. A number is an \<open>fp\<close>:
  a finite value, an infinity or NaN. The operations follow the IEEE rules for the
  special values, and a finite result whose magnitude exceeds \<open>FLT_MAX\<close>, the largest
  finite float32, becomes an infinity. A finite result within that range is kept exact:
  the rounding of float32 to 24 significant bits is not modelled, nor is the sign of
  zero (a zero divisor counts as \<open>+0\<close>). The theorems below are therefore about what does
  not depend on rounding: which results are finite, infinite or NaN, which are exactly
  \<open>0\<close> or \<open>1\<close>, and in which range they lie.

  A 1-D tensor is a list of numbers, a 2-D tensor the list of its rows, a 3-D tensor a
  list of 2-D tensors. That a nested list is rectangular is an invariant of being a
  tensor; it is stated where a theorem needs it.
\<close>

datatype fp = Fin real | PosInf | NegInf | NaN

type_synonym vec = "fp list"
type_synonym mat = "fp list list"

datatype error = ShapeMismatch | KeyError string | ValueError

definition ebind :: "error + 'a \<Rightarrow> ('a \<Rightarrow> error + 'b) \<Rightarrow> error + 'b" where
  "ebind r f = (case r of Inl e \<Rightarrow> Inl e | Inr v \<Rightarrow> f v)"

definition FLT_MAX :: real where
  "FLT_MAX = (2 - 1 / 2 ^ 23) * 2 ^ 127"

text \<open>The float that a finite arithmetic result becomes.\<close>

definition fl :: "real \<Rightarrow> fp" where
  "fl r = (if FLT_MAX < r then PosInf else if r < - FLT_MAX then NegInf else Fin r)"

fun fneg :: "fp \<Rightarrow> fp" where
  "fneg (Fin a) = Fin (- a)"
| "fneg PosInf = NegInf"
| "fneg NegInf = PosInf"
| "fneg NaN = NaN"

fun fadd :: "fp \<Rightarrow> fp \<Rightarrow> fp" where
  "fadd NaN y = NaN"
| "fadd x NaN = NaN"
| "fadd (Fin a) (Fin b) = fl (a + b)"
| "fadd (Fin a) y = y"
| "fadd x (Fin b) = x"
| "fadd PosInf PosInf = PosInf"
| "fadd NegInf NegInf = NegInf"
| "fadd PosInf NegInf = NaN"
| "fadd NegInf PosInf = NaN"

definition fsub :: "fp \<Rightarrow> fp \<Rightarrow> fp" where
  "fsub x y = fadd x (fneg y)"

fun fmul :: "fp \<Rightarrow> fp \<Rightarrow> fp" where
  "fmul NaN y = NaN"
| "fmul x NaN = NaN"
| "fmul (Fin a) (Fin b) = fl (a * b)"
| "fmul (Fin a) y = (if a = 0 then NaN else if 0 < a then y else fneg y)"
| "fmul x (Fin b) = (if b = 0 then NaN else if 0 < b then x else fneg x)"
| "fmul PosInf y = y"
| "fmul NegInf y = fneg y"

fun fdiv :: "fp \<Rightarrow> fp \<Rightarrow> fp" where
  "fdiv NaN y = NaN"
| "fdiv x NaN = NaN"
| "fdiv (Fin a) (Fin b) =
     (if b \<noteq> 0 then fl (a / b)
      else if a = 0 then NaN else if 0 < a then PosInf else NegInf)"
| "fdiv (Fin a) y = Fin 0"
| "fdiv PosInf (Fin b) = (if b < 0 then NegInf else PosInf)"
| "fdiv NegInf (Fin b) = (if b < 0 then PosInf else NegInf)"
| "fdiv x y = NaN"

fun fsqrt :: "fp \<Rightarrow> fp" where
  "fsqrt (Fin a) = (if a < 0 then NaN else Fin (sqrt a))"
| "fsqrt PosInf = PosInf"
| "fsqrt NegInf = NaN"
| "fsqrt NaN = NaN"

fun fexp :: "fp \<Rightarrow> fp" where
  "fexp (Fin a) = fl (exp a)"
| "fexp PosInf = PosInf"
| "fexp NegInf = Fin 0"
| "fexp NaN = NaN"

fun ftanh :: "fp \<Rightarrow> fp" where
  "ftanh (Fin a) = Fin (tanh a)"
| "ftanh PosInf = Fin 1"
| "ftanh NegInf = Fin (- 1)"
| "ftanh NaN = NaN"

text \<open>\<^verbatim>\<open>F.relu\<close> and \<^verbatim>\<open>torch.max\<close> propagate NaN.\<close>

fun frelu :: "fp \<Rightarrow> fp" where
  "frelu (Fin a) = Fin (max 0 a)"
| "frelu PosInf = PosInf"
| "frelu NegInf = Fin 0"
| "frelu NaN = NaN"

fun fmax :: "fp \<Rightarrow> fp \<Rightarrow> fp" where
  "fmax NaN y = NaN"
| "fmax x NaN = NaN"
| "fmax PosInf y = PosInf"
| "fmax x PosInf = PosInf"
| "fmax NegInf y = y"
| "fmax x NegInf = x"
| "fmax (Fin a) (Fin b) = Fin (max a b)"

text \<open>A sum accumulated from the left, starting from zero.\<close>

definition fsum :: "fp list \<Rightarrow> fp" where
  "fsum xs = fold (\<lambda>x acc. fadd acc x) xs (Fin 0)"

section \<open>Layer primitives\<close>

definition STATE_SIZE :: nat where
  "STATE_SIZE = 501"

definition ACTION_SIZE :: nat where
  "ACTION_SIZE = 54"

text \<open>
  \<^verbatim>\<open>nn.Linear\<close> holds \<open>weight\<close> of shape (out, in) and \<open>bias\<close> of shape (out);
  \<^verbatim>\<open>nn.LayerNorm\<close> holds \<open>normalized_shape\<close>, fixed by the constructor, and \<open>weight\<close>
  and \<open>bias\<close> of that shape; its \<open>eps\<close> is the default \<open>1e-5\<close>.
\<close>

record Linear =
  lin_weight :: mat
  lin_bias :: vec

record LayerNorm =
  normalized_shape :: nat
  ln_weight :: vec
  ln_bias :: vec

definition ln_eps :: real where
  "ln_eps = 1 / 100000"

definition dot :: "vec \<Rightarrow> vec \<Rightarrow> fp" where
  "dot u v = fsum (map2 fmul u v)"

definition linear_row :: "Linear \<Rightarrow> vec \<Rightarrow> vec" where
  "linear_row l x = map2 (\<lambda>row b. fadd (dot x row) b) (lin_weight l) (lin_bias l)"

text \<open>
  \<open>y = x W\<^sup>T + b\<close> on every row of a 2-D input. \<open>ShapeMismatch\<close> is the
  \<^verbatim>\<open>RuntimeError\<close> of torch for an input whose last dimension is not \<open>in\<close>; a bias that
  is not of shape (out) is rejected too (torch would broadcast a bias of length one, which
  no constructed or exported model has).
\<close>

definition linear :: "Linear \<Rightarrow> vec list \<Rightarrow> error + vec list" where
  "linear l X =
     (if length (lin_bias l) = length (lin_weight l)
         \<and> list_all (\<lambda>x. list_all (\<lambda>row. length row = length x) (lin_weight l)) X
      then Inr (map (linear_row l) X)
      else Inl ShapeMismatch)"

definition mean :: "vec \<Rightarrow> fp" where
  "mean x = fdiv (fsum x) (Fin (real (length x)))"

definition variance :: "vec \<Rightarrow> fp" where
  "variance x =
     fdiv (fsum (map (\<lambda>v. fmul (fsub v (mean x)) (fsub v (mean x))) x)) (Fin (real (length x)))"

definition layer_norm_row :: "vec \<Rightarrow> vec \<Rightarrow> vec \<Rightarrow> vec" where
  "layer_norm_row w b x =
     map (\<lambda>(v, g, c).
            fadd (fmul (fdiv (fsub v (mean x)) (fsqrt (fadd (variance x) (Fin ln_eps)))) g) c)
       (zip x (zip w b))"

definition layer_norm :: "LayerNorm \<Rightarrow> vec list \<Rightarrow> error + vec list" where
  "layer_norm lnorm X =
     (if length (ln_weight lnorm) = normalized_shape lnorm
         \<and> length (ln_bias lnorm) = normalized_shape lnorm
         \<and> list_all (\<lambda>x. length x = normalized_shape lnorm) X
      then Inr (map (layer_norm_row (ln_weight lnorm) (ln_bias lnorm)) X)
      else Inl ShapeMismatch)"

definition relu_row :: "vec \<Rightarrow> vec" where
  "relu_row x = map frelu x"

definition relu :: "vec list \<Rightarrow> vec list" where
  "relu X = map relu_row X"

definition tanh_t :: "vec list \<Rightarrow> vec list" where
  "tanh_t X = map (map ftanh) X"

text \<open>\<^verbatim>\<open>torch.cat([a, b], dim=-1)\<close> of two 2-D tensors with the same number of rows.\<close>

definition cat_last :: "vec list \<Rightarrow> vec list \<Rightarrow> error + vec list" where
  "cat_last S A = (if length S = length A then Inr (map2 (@) S A) else Inl ShapeMismatch)"

text \<open>
  \<^verbatim>\<open>x.squeeze(-1)\<close> of a tensor of shape (N, 1). For another last dimension torch
  returns the tensor unchanged, which is no 1-D tensor: \<open>ShapeMismatch\<close> here.
\<close>

definition squeeze_last :: "vec list \<Rightarrow> error + vec" where
  "squeeze_last X =
     (if list_all (\<lambda>x. length x = 1) X then Inr (map hd X) else Inl ShapeMismatch)"

section \<open>Sub-networks\<close>

record StateEncoder =
  se_fc1 :: Linear
  se_ln1 :: LayerNorm
  se_fc2 :: Linear
  se_ln2 :: LayerNorm

record ActionEncoder =
  ae_fc1 :: Linear
  ae_ln1 :: LayerNorm
  ae_fc2 :: Linear

record ActionScorer =
  as_fc1 :: Linear
  as_ln1 :: LayerNorm
  as_fc2 :: Linear

record ValueHead =
  vh_fc1 :: Linear
  vh_fc2 :: Linear

record PolicyValueNetwork =
  state_encoder :: StateEncoder
  value_state_encoder :: StateEncoder
  action_encoder :: ActionEncoder
  action_scorer :: ActionScorer
  value_head :: ValueHead

definition StateEncoder_forward :: "StateEncoder \<Rightarrow> vec list \<Rightarrow> error + vec list" where
  "StateEncoder_forward enc x =
     ebind (linear (se_fc1 enc) x) (\<lambda>a.
     ebind (layer_norm (se_ln1 enc) a) (\<lambda>b.
     ebind (linear (se_fc2 enc) (relu b)) (\<lambda>c.
     ebind (layer_norm (se_ln2 enc) c) (\<lambda>d.
     Inr (relu d)))))"

definition ActionEncoder_forward :: "ActionEncoder \<Rightarrow> vec list \<Rightarrow> error + vec list" where
  "ActionEncoder_forward enc x =
     ebind (linear (ae_fc1 enc) x) (\<lambda>a.
     ebind (layer_norm (ae_ln1 enc) a) (\<lambda>b.
     linear (ae_fc2 enc) (relu b)))"

definition ActionScorer_forward ::
  "ActionScorer \<Rightarrow> vec list \<Rightarrow> vec list \<Rightarrow> error + vec" where
  "ActionScorer_forward sc state_embed action_embed =
     ebind (cat_last state_embed action_embed) (\<lambda>x.
     ebind (linear (as_fc1 sc) x) (\<lambda>a.
     ebind (layer_norm (as_ln1 sc) a) (\<lambda>b.
     ebind (linear (as_fc2 sc) (relu b)) squeeze_last)))"

definition ValueHead_forward :: "ValueHead \<Rightarrow> vec list \<Rightarrow> error + vec" where
  "ValueHead_forward vh x =
     ebind (linear (vh_fc1 vh) x) (\<lambda>a.
     ebind (linear (vh_fc2 vh) (relu a)) (\<lambda>b.
     squeeze_last (tanh_t b)))"

text \<open>
  The shapes that the constructors give the parameters (\<^verbatim>\<open>__init__\<close> of each class with
  its default sizes).
\<close>

definition Linear_shape :: "nat \<Rightarrow> nat \<Rightarrow> Linear \<Rightarrow> bool" where
  "Linear_shape n_in n_out l \<longleftrightarrow>
     length (lin_weight l) = n_out \<and> list_all (\<lambda>row. length row = n_in) (lin_weight l)
     \<and> length (lin_bias l) = n_out"

definition LayerNorm_shape :: "nat \<Rightarrow> LayerNorm \<Rightarrow> bool" where
  "LayerNorm_shape n lnorm \<longleftrightarrow>
     normalized_shape lnorm = n \<and> length (ln_weight lnorm) = n \<and> length (ln_bias lnorm) = n"

definition StateEncoder_shape :: "StateEncoder \<Rightarrow> bool" where
  "StateEncoder_shape enc \<longleftrightarrow>
     Linear_shape STATE_SIZE 512 (se_fc1 enc) \<and> LayerNorm_shape 512 (se_ln1 enc)
     \<and> Linear_shape 512 256 (se_fc2 enc) \<and> LayerNorm_shape 256 (se_ln2 enc)"

definition ActionEncoder_shape :: "ActionEncoder \<Rightarrow> bool" where
  "ActionEncoder_shape enc \<longleftrightarrow>
     Linear_shape ACTION_SIZE 128 (ae_fc1 enc) \<and> LayerNorm_shape 128 (ae_ln1 enc)
     \<and> Linear_shape 128 64 (ae_fc2 enc)"

definition ActionScorer_shape :: "ActionScorer \<Rightarrow> bool" where
  "ActionScorer_shape sc \<longleftrightarrow>
     Linear_shape (256 + 64) 128 (as_fc1 sc) \<and> LayerNorm_shape 128 (as_ln1 sc)
     \<and> Linear_shape 128 1 (as_fc2 sc)"

definition ValueHead_shape :: "ValueHead \<Rightarrow> bool" where
  "ValueHead_shape vh \<longleftrightarrow>
     Linear_shape 256 128 (vh_fc1 vh) \<and> Linear_shape 128 1 (vh_fc2 vh)"

definition PolicyValueNetwork_shape :: "PolicyValueNetwork \<Rightarrow> bool" where
  "PolicyValueNetwork_shape m \<longleftrightarrow>
     StateEncoder_shape (state_encoder m) \<and> StateEncoder_shape (value_state_encoder m)
     \<and> ActionEncoder_shape (action_encoder m) \<and> ActionScorer_shape (action_scorer m)
     \<and> ValueHead_shape (value_head m)"

section \<open>The forward pass\<close>

text \<open>Rows \<open>i\<close> of a flat list cut into rows of length \<open>n\<close>.\<close>

definition chunks :: "nat \<Rightarrow> 'a list \<Rightarrow> 'a list list" where
  "chunks n xs = map (\<lambda>i. take n (drop (i * n) xs)) [0..<length xs div n]"

text \<open>\<^verbatim>\<open>t.reshape(-1, n)\<close> of a tensor whose numbers, in order, are \<open>flat\<close>.\<close>

definition reshape_rows :: "nat \<Rightarrow> fp list \<Rightarrow> error + vec list" where
  "reshape_rows n flat =
     (if n = 0 \<or> length flat mod n \<noteq> 0 then Inl ShapeMismatch else Inr (chunks n flat))"

text \<open>
  \<^verbatim>\<open>t.reshape(batch_size, max_actions, -1)\<close> of a tensor with rows \<open>xs\<close>: torch refuses to
  infer the \<open>-1\<close> when \<open>batch_size * max_actions = 0\<close>. The rows are regrouped only when
  there are \<open>batch_size * max_actions\<close> of them, which is so whenever the action features
  have last dimension \<open>ACTION_SIZE\<close>.
\<close>

definition reshape_infer :: "nat \<Rightarrow> nat \<Rightarrow> 'a list \<Rightarrow> error + 'a list list" where
  "reshape_infer batch_size max_actions xs =
     (if batch_size * max_actions = 0 \<or> length xs \<noteq> batch_size * max_actions
      then Inl ShapeMismatch else Inr (chunks max_actions xs))"

text \<open>\<^verbatim>\<open>t.reshape(batch_size, max_actions)\<close> of a 1-D tensor.\<close>

definition reshape2 :: "nat \<Rightarrow> nat \<Rightarrow> 'a list \<Rightarrow> error + 'a list list" where
  "reshape2 batch_size max_actions xs =
     (if length xs \<noteq> batch_size * max_actions then Inl ShapeMismatch
      else Inr (map (\<lambda>i. take max_actions (drop (i * max_actions) xs)) [0..<batch_size]))"

text \<open>
  \<^verbatim>\<open>scores.masked_fill(action_mask == 0, float('-inf'))\<close> for a mask of the shape of the
  scores (a mask that torch would broadcast is \<open>ShapeMismatch\<close> here).
\<close>

definition masked_fill :: "fp list list \<Rightarrow> real list list \<Rightarrow> error + fp list list" where
  "masked_fill scores action_mask =
     (if length action_mask = length scores
         \<and> list_all2 (\<lambda>s k. length s = length k) scores action_mask
      then Inr (map2 (map2 (\<lambda>s k. if k = 0 then NegInf else s)) scores action_mask)
      else Inl ShapeMismatch)"

definition forward ::
  "PolicyValueNetwork \<Rightarrow> vec list \<Rightarrow> vec list list \<Rightarrow> real list list
     \<Rightarrow> error + (fp list list \<times> fp list)" where
  "forward m states action_features action_mask =
     ebind (StateEncoder_forward (state_encoder m) states) (\<lambda>state_embed.
     ebind (StateEncoder_forward (value_state_encoder m) states) (\<lambda>value_state_embed.
     let batch_size = length action_features;
         max_actions = (case action_features of [] \<Rightarrow> 0 | r # _ \<Rightarrow> length r)
     in
     ebind (reshape_rows ACTION_SIZE (concat (concat action_features))) (\<lambda>flat_actions.
     ebind (ActionEncoder_forward (action_encoder m) flat_actions) (\<lambda>flat_action_embed.
     ebind (reshape_infer batch_size max_actions flat_action_embed) (\<lambda>action_embed.
     let state_expanded = map (replicate max_actions) state_embed;
         flat_state = concat state_expanded;
         flat_act = concat action_embed
     in
     ebind (ActionScorer_forward (action_scorer m) flat_state flat_act) (\<lambda>flat_scores.
     ebind (reshape2 batch_size max_actions flat_scores) (\<lambda>scores.
     ebind (masked_fill scores action_mask) (\<lambda>scores.
     ebind (ValueHead_forward (value_head m) value_state_embed) (\<lambda>values.
     Inr (scores, values))))))))))"

text \<open>
  \<^verbatim>\<open>F.softmax(scores, dim=-1)\<close> on one row, as torch computes it: the maximum of the row is
  subtracted before exponentiating.
\<close>

definition softmax :: "fp list \<Rightarrow> fp list" where
  "softmax row =
     (let mx = fold fmax row NegInf;
          e = map (\<lambda>x. fexp (fsub x mx)) row;
          s = fsum e
      in map (\<lambda>v. fdiv v s) e)"

definition get_policy_and_value ::
  "PolicyValueNetwork \<Rightarrow> vec list \<Rightarrow> vec list list \<Rightarrow> real list list
     \<Rightarrow> error + (fp list list \<times> fp list)" where
  "get_policy_and_value m states action_features action_mask =
     ebind (forward m states action_features action_mask) (\<lambda>(scores, values).
     Inr (map softmax scores, values))"

section \<open>Graph manifest\<close>

text \<open>
  \<^verbatim>\<open>named_modules()\<close> of a sub-network yields the sub-network itself under the empty
  name, then its layers under their attribute names, in the order in which \<^verbatim>\<open>__init__\<close>
  assigns them.
\<close>

datatype nn_module = Container | LinearModule Linear | LayerNormModule LayerNorm

definition StateEncoder_named_modules :: "StateEncoder \<Rightarrow> (string \<times> nn_module) list" where
  "StateEncoder_named_modules enc =
     [('''', Container), (''fc1'', LinearModule (se_fc1 enc)),
      (''ln1'', LayerNormModule (se_ln1 enc)), (''fc2'', LinearModule (se_fc2 enc)),
      (''ln2'', LayerNormModule (se_ln2 enc))]"

definition ActionEncoder_named_modules :: "ActionEncoder \<Rightarrow> (string \<times> nn_module) list" where
  "ActionEncoder_named_modules enc =
     [('''', Container), (''fc1'', LinearModule (ae_fc1 enc)),
      (''ln1'', LayerNormModule (ae_ln1 enc)), (''fc2'', LinearModule (ae_fc2 enc))]"

definition ActionScorer_named_modules :: "ActionScorer \<Rightarrow> (string \<times> nn_module) list" where
  "ActionScorer_named_modules sc =
     [('''', Container), (''fc1'', LinearModule (as_fc1 sc)),
      (''ln1'', LayerNormModule (as_ln1 sc)), (''fc2'', LinearModule (as_fc2 sc))]"

definition ValueHead_named_modules :: "ValueHead \<Rightarrow> (string \<times> nn_module) list" where
  "ValueHead_named_modules vh =
     [('''', Container), (''fc1'', LinearModule (vh_fc1 vh)), (''fc2'', LinearModule (vh_fc2 vh))]"

text \<open>An operation of the manifest: \<^verbatim>\<open>{'op': ..., 'key': ...}\<close>, the key being optional.\<close>

record operation =
  op :: string
  key :: "string option"

text \<open>
  The loop that the source runs for each of the two state encoders, the action encoder
  and the action scorer: a linear layer appends one operation, a normalization layer
  appends itself and a \<^verbatim>\<open>relu\<close>.
\<close>

definition discover :: "string \<Rightarrow> (string \<times> nn_module) list \<Rightarrow> operation list" where
  "discover component mods =
     fold (\<lambda>(name, mdl) ops.
        if name = '''' then ops
        else (let prefix = component @ ''_'' @ name in
          case mdl of
            LinearModule _ \<Rightarrow> ops @ [\<lparr>op = ''linear'', key = Some prefix\<rparr>]
          | LayerNormModule _ \<Rightarrow>
              ops @ [\<lparr>op = ''layernorm'', key = Some prefix\<rparr>, \<lparr>op = ''relu'', key = None\<rparr>]
          | Container \<Rightarrow> ops))
       mods []"

text \<open>The loop for the value head appends no \<^verbatim>\<open>relu\<close>; they are inserted afterwards.\<close>

definition discover_value_head :: "string \<Rightarrow> (string \<times> nn_module) list \<Rightarrow> operation list" where
  "discover_value_head component mods =
     fold (\<lambda>(name, mdl) ops.
        if name = '''' then ops
        else (let prefix = component @ ''_'' @ name in
          case mdl of
            LinearModule _ \<Rightarrow> ops @ [\<lparr>op = ''linear'', key = Some prefix\<rparr>]
          | LayerNormModule _ \<Rightarrow> ops @ [\<lparr>op = ''layernorm'', key = Some prefix\<rparr>]
          | Container \<Rightarrow> ops))
       mods []"

definition linear_indices :: "operation list \<Rightarrow> nat list" where
  "linear_indices vh = filter (\<lambda>i. op (vh ! i) = ''linear'') [0..<length vh]"

text \<open>\<^verbatim>\<open>xs.insert(i, x)\<close> for \<open>i \<ge> 0\<close>.\<close>

definition list_insert :: "nat \<Rightarrow> 'a \<Rightarrow> 'a list \<Rightarrow> 'a list" where
  "list_insert i x xs = take i xs @ x # drop i xs"

definition fix_value_head :: "operation list \<Rightarrow> operation list" where
  "fix_value_head vh0 =
     (let vh = fold (\<lambda>idx vh. list_insert (idx + 1) \<lparr>op = ''relu'', key = None\<rparr> vh)
                 (butlast (linear_indices vh0)) vh0
      in vh @ [\<lparr>op = ''tanh'', key = None\<rparr>])"

definition build_graph_manifest :: "PolicyValueNetwork \<Rightarrow> (string \<rightharpoonup> operation list)" where
  "build_graph_manifest model =
     [''state_encoder'' \<mapsto>
        discover ''state_encoder'' (StateEncoder_named_modules (state_encoder model)),
      ''value_state_encoder'' \<mapsto>
        discover ''value_state_encoder'' (StateEncoder_named_modules (value_state_encoder model)),
      ''action_encoder'' \<mapsto>
        discover ''action_encoder'' (ActionEncoder_named_modules (action_encoder model)),
      ''action_scorer'' \<mapsto>
        discover ''action_scorer'' (ActionScorer_named_modules (action_scorer model)),
      ''value_head'' \<mapsto>
        fix_value_head
          (discover_value_head ''value_head'' (ValueHead_named_modules (value_head model)))]"

section \<open>Weight archive\<close>

text \<open>
  The JSON object that \<^verbatim>\<open>export_weights\<close> writes and \<^verbatim>\<open>load_weights\<close> reads: a dictionary
  whose key \<^verbatim>\<open>_meta\<close> holds the metadata and whose other keys hold \<^verbatim>\<open>{kernel, bias}\<close> or
  \<^verbatim>\<open>{gamma, beta}\<close>. Writing the file and reading it back is taken to return the same
  dictionary; the errors of the file system and of the JSON parser are not modelled.
\<close>

record meta =
  version :: int
  state_size :: nat
  action_size :: nat
  graph :: "string \<rightharpoonup> operation list"

datatype entry =
    Meta meta
  | LinearEntry mat vec \<comment> \<open>kernel, bias\<close>
  | LayerNormEntry vec vec \<comment> \<open>gamma, beta\<close>

type_synonym archive = "string \<rightharpoonup> entry"

text \<open>
  \<^verbatim>\<open>numpy\<close>'s \<^verbatim>\<open>.T\<close> on a 2-D array given as the list of its rows; \<^verbatim>\<open>np.array\<close> accepts a
  nested list only when its rows have one length.
\<close>

definition rectangular :: "mat \<Rightarrow> bool" where
  "rectangular xss = (case xss of [] \<Rightarrow> True | r # rs \<Rightarrow> list_all (\<lambda>x. length x = length r) rs)"

definition np_T :: "mat \<Rightarrow> mat" where
  "np_T xss = (case xss of [] \<Rightarrow> [] | r # _ \<Rightarrow> map (\<lambda>j. map (\<lambda>row. row ! j) xss) [0..<length r])"

definition export_module :: "string \<Rightarrow> string \<times> nn_module \<Rightarrow> archive \<Rightarrow> archive" where
  "export_module component_name = (\<lambda>(name, mdl) weights.
        if name = '''' then weights
        else (let entry_key = component_name @ ''_'' @ name in
          case mdl of
            LinearModule l \<Rightarrow>
              weights(entry_key \<mapsto> LinearEntry (np_T (lin_weight l)) (lin_bias l))
          | LayerNormModule n \<Rightarrow>
              weights(entry_key \<mapsto> LayerNormEntry (ln_weight n) (ln_bias n))
          | Container \<Rightarrow> weights))"

definition components :: "PolicyValueNetwork \<Rightarrow> (string \<times> (string \<times> nn_module) list) list" where
  "components model =
     [(''state_encoder'', StateEncoder_named_modules (state_encoder model)),
      (''value_state_encoder'', StateEncoder_named_modules (value_state_encoder model)),
      (''action_encoder'', ActionEncoder_named_modules (action_encoder model)),
      (''action_scorer'', ActionScorer_named_modules (action_scorer model)),
      (''value_head'', ValueHead_named_modules (value_head model))]"

text \<open>The archive written to \<open>path\<close>, and the line printed.\<close>

definition export_weights :: "PolicyValueNetwork \<Rightarrow> string \<Rightarrow> archive \<times> string list" where
  "export_weights model path =
     (let graph = build_graph_manifest model;
          weights = [''_meta'' \<mapsto> Meta \<lparr>version = 2, state_size = STATE_SIZE,
                                        action_size = ACTION_SIZE, graph = graph\<rparr>];
          weights = fold (\<lambda>(component_name, mods) w. fold (export_module component_name) mods w)
                      (components model) weights
      in (weights, [''Exported weights to '' @ path @ '' (graph manifest v2)'']))"

text \<open>
  \<^verbatim>\<open>load_weights\<close> mutates the model statement by statement; a statement that raises
  leaves the mutations made before it. A statement maps the state (the model and the lines
  printed so far) to the next state or to the exception. A layer of the model is referred
  to by the update function of its field.
\<close>

record loader_state =
  net :: PolicyValueNetwork
  stdout :: "string list"

type_synonym stmt = "loader_state \<Rightarrow> error + loader_state"

fun exec :: "stmt list \<Rightarrow> loader_state \<Rightarrow> error option \<times> loader_state" where
  "exec [] st = (None, st)"
| "exec (c # cs) st = (case c st of Inl e \<Rightarrow> (Some e, st) | Inr st' \<Rightarrow> exec cs st')"

definition print :: "string \<Rightarrow> stmt" where
  "print line st = Inr (st\<lparr>stdout := stdout st @ [line]\<rparr>)"

definition load_linear ::
  "archive \<Rightarrow> ((Linear \<Rightarrow> Linear) \<Rightarrow> PolicyValueNetwork \<Rightarrow> PolicyValueNetwork) \<Rightarrow> string \<Rightarrow> stmt" where
  "load_linear weights mdl name st =
     (case weights name of
        None \<Rightarrow> Inl (KeyError name)
      | Some (LinearEntry the_kernel the_bias) \<Rightarrow>
          if rectangular the_kernel
          then Inr (st\<lparr>net :=
                 mdl (\<lambda>l. l\<lparr>lin_weight := np_T the_kernel, lin_bias := the_bias\<rparr>) (net st)\<rparr>)
          else Inl ValueError
      | Some _ \<Rightarrow> Inl (KeyError ''kernel''))"

definition load_layernorm ::
  "archive \<Rightarrow> ((LayerNorm \<Rightarrow> LayerNorm) \<Rightarrow> PolicyValueNetwork \<Rightarrow> PolicyValueNetwork) \<Rightarrow> string \<Rightarrow> stmt" where
  "load_layernorm weights mdl name st =
     (case weights name of
        None \<Rightarrow> Inl (KeyError name)
      | Some (LayerNormEntry the_gamma the_beta) \<Rightarrow>
          Inr (st\<lparr>net :=
                 mdl (\<lambda>n. n\<lparr>ln_weight := the_gamma, ln_bias := the_beta\<rparr>) (net st)\<rparr>)
      | Some _ \<Rightarrow> Inl (KeyError ''gamma''))"

definition load_weights ::
  "PolicyValueNetwork \<Rightarrow> archive \<Rightarrow> string \<Rightarrow> error option \<times> loader_state" where
  "load_weights model weights path =
     exec
       ([load_linear weights (state_encoder_update \<circ> se_fc1_update) ''state_encoder_fc1'',
         load_layernorm weights (state_encoder_update \<circ> se_ln1_update) ''state_encoder_ln1'',
         load_linear weights (state_encoder_update \<circ> se_fc2_update) ''state_encoder_fc2'',
         load_layernorm weights (state_encoder_update \<circ> se_ln2_update) ''state_encoder_ln2'']
        @ (if weights ''value_state_encoder_fc1'' \<noteq> None
           then
             [load_linear weights (value_state_encoder_update \<circ> se_fc1_update)
                ''value_state_encoder_fc1'',
              load_layernorm weights (value_state_encoder_update \<circ> se_ln1_update)
                ''value_state_encoder_ln1'',
              load_linear weights (value_state_encoder_update \<circ> se_fc2_update)
                ''value_state_encoder_fc2'',
              load_layernorm weights (value_state_encoder_update \<circ> se_ln2_update)
                ''value_state_encoder_ln2'']
           else
             [print ''  Note: value_state_encoder not found in weights, using random init''])
        @ [load_linear weights (action_encoder_update \<circ> ae_fc1_update) ''action_encoder_fc1'',
           load_layernorm weights (action_encoder_update \<circ> ae_ln1_update) ''action_encoder_ln1'',
           load_linear weights (action_encoder_update \<circ> ae_fc2_update) ''action_encoder_fc2'',
           load_linear weights (action_scorer_update \<circ> as_fc1_update) ''action_scorer_fc1'',
           load_layernorm weights (action_scorer_update \<circ> as_ln1_update) ''action_scorer_ln1'',
           load_linear weights (action_scorer_update \<circ> as_fc2_update) ''action_scorer_fc2'',
           load_linear weights (value_head_update \<circ> vh_fc1_update) ''value_head_fc1'',
           load_linear weights (value_head_update \<circ> vh_fc2_update) ''value_head_fc2'',
           print (''Loaded weights from '' @ path)])
       \<lparr>net = model, stdout = []\<rparr>"

section \<open>The forward pass, one row at a time\<close>

text \<open>
  What each sub-network computes on a single row once the shapes fit. The theorems below
  show that, on well-shaped tensors, the tensor-level functions above are these row
  functions applied to every row.
\<close>


definition StateEncoder_row :: "StateEncoder \<Rightarrow> vec \<Rightarrow> vec" where
  "StateEncoder_row enc x =
     relu_row (layer_norm_row (ln_weight (se_ln2 enc)) (ln_bias (se_ln2 enc))
       (linear_row (se_fc2 enc)
         (relu_row (layer_norm_row (ln_weight (se_ln1 enc)) (ln_bias (se_ln1 enc))
           (linear_row (se_fc1 enc) x)))))"

definition ActionEncoder_row :: "ActionEncoder \<Rightarrow> vec \<Rightarrow> vec" where
  "ActionEncoder_row enc x =
     linear_row (ae_fc2 enc)
       (relu_row (layer_norm_row (ln_weight (ae_ln1 enc)) (ln_bias (ae_ln1 enc))
         (linear_row (ae_fc1 enc) x)))"

definition ActionScorer_row :: "ActionScorer \<Rightarrow> vec \<Rightarrow> vec \<Rightarrow> fp" where
  "ActionScorer_row sc s a =
     hd (linear_row (as_fc2 sc)
       (relu_row (layer_norm_row (ln_weight (as_ln1 sc)) (ln_bias (as_ln1 sc))
         (linear_row (as_fc1 sc) (s @ a)))))"

definition ValueHead_row :: "ValueHead \<Rightarrow> vec \<Rightarrow> fp" where
  "ValueHead_row vh x = ftanh (hd (linear_row (vh_fc2 vh) (relu_row (linear_row (vh_fc1 vh) x))))"

text \<open>
  A batch of \<open>B\<close> states with \<open>M\<close> action slots each: \<open>states\<close> has shape
  \<open>(B, STATE_SIZE)\<close>, \<open>action_features\<close> has shape \<open>(B, M, ACTION_SIZE)\<close> and
  \<open>action_mask\<close> has shape \<open>(B, M)\<close>.
\<close>


definition batch_shape ::
  "nat \<Rightarrow> nat \<Rightarrow> vec list \<Rightarrow> vec list list \<Rightarrow> real list list \<Rightarrow> bool" where
  "batch_shape B M states action_features action_mask \<longleftrightarrow>
     length states = B \<and> list_all (\<lambda>s. length s = STATE_SIZE) states
     \<and> length action_features = B
     \<and> list_all (\<lambda>r. length r = M \<and> list_all (\<lambda>a. length a = ACTION_SIZE) r) action_features
     \<and> length action_mask = B \<and> list_all (\<lambda>k. length k = M) action_mask"

text \<open>
  The score of one action for one state, the masking of one score (\<open>k\<close> is the mask
  entry), and the scores and the value of one batch row.
\<close>

definition raw_score :: "PolicyValueNetwork \<Rightarrow> vec \<Rightarrow> vec \<Rightarrow> fp" where
  "raw_score m s a =
     ActionScorer_row (action_scorer m) (StateEncoder_row (state_encoder m) s)
       (ActionEncoder_row (action_encoder m) a)"

definition fill :: "fp \<Rightarrow> real \<Rightarrow> fp" where
  "fill s k = (if k = 0 then NegInf else s)"

definition row_scores :: "PolicyValueNetwork \<Rightarrow> vec \<Rightarrow> vec list \<Rightarrow> real list \<Rightarrow> fp list" where
  "row_scores m s acts k = map2 fill (map (raw_score m s) acts) k"

definition row_value :: "PolicyValueNetwork \<Rightarrow> vec \<Rightarrow> fp" where
  "row_value m s = ValueHead_row (value_head m) (StateEncoder_row (value_state_encoder m) s)"

text \<open>
  The weight of a score in a softmax whose row maximum is \<open>c\<close>: \<open>exp (s - c)\<close> for a
  finite score \<open>s\<close>, unless \<open>s - c\<close> overflows to \<open>-inf\<close>; \<open>0\<close> then and for \<open>-inf\<close>.
\<close>

definition wt :: "real \<Rightarrow> fp \<Rightarrow> real" where
  "wt c x = (case x of Fin s \<Rightarrow> (if s - c < - FLT_MAX then 0 else exp (s - c)) | _ \<Rightarrow> 0)"

text \<open>A row of scores in which every entry is finite or \<open>-inf\<close>.\<close>

definition score_row :: "fp list \<Rightarrow> bool" where
  "score_row row = list_all (\<lambda>x. case x of Fin s \<Rightarrow> True | NegInf \<Rightarrow> True | _ \<Rightarrow> False) row"

section \<open>Properties of a policy row\<close>

text \<open>
  For a mask row \<open>k\<close>, a row of scores and a policy row \<open>p\<close>: that the score at every
  position with a non-zero mask entry is finite; that every policy entry at a position
  with mask entry zero is exactly \<open>0\<close>; that every policy entry is a finite number in
  \<open>[0, 1]\<close>.
\<close>

definition is_finite :: "fp \<Rightarrow> bool" where
  "is_finite x = (case x of Fin r \<Rightarrow> True | _ \<Rightarrow> False)"




section \<open>Example inputs\<close>

text \<open>
  Two models with the constructor's shapes whose parameters are constant, one state, and
  two actions for it. In the example state encoder the last affine layer has zero weights
  and bias \<open>-1\<close>, so that its output is \<open>-1\<close> in every component. The second model has
  all its affine weights \<open>1/2\<close>; on the state whose \<open>501\<close> entries are \<open>2\<^sup>1\<^sup>2\<^sup>7\<close>, a finite
  float32, the sums of its first affine layer overflow.
\<close>

definition const_Linear :: "nat \<Rightarrow> nat \<Rightarrow> real \<Rightarrow> real \<Rightarrow> Linear" where
  "const_Linear n_in n_out w b =
     \<lparr>lin_weight = replicate n_out (replicate n_in (Fin w)), lin_bias = replicate n_out (Fin b)\<rparr>"

definition const_LayerNorm :: "nat \<Rightarrow> real \<Rightarrow> real \<Rightarrow> LayerNorm" where
  "const_LayerNorm n g b =
     \<lparr>normalized_shape = n, ln_weight = replicate n (Fin g), ln_bias = replicate n (Fin b)\<rparr>"

definition example_StateEncoder :: StateEncoder where
  "example_StateEncoder =
     \<lparr>se_fc1 = const_Linear STATE_SIZE 512 0 0, se_ln1 = const_LayerNorm 512 1 0,
      se_fc2 = const_Linear 512 256 0 (- 1), se_ln2 = const_LayerNorm 256 1 0\<rparr>"

definition example_model :: PolicyValueNetwork where
  "example_model =
     \<lparr>state_encoder = example_StateEncoder,
      value_state_encoder = example_StateEncoder,
      action_encoder =
        \<lparr>ae_fc1 = const_Linear ACTION_SIZE 128 0 0, ae_ln1 = const_LayerNorm 128 1 0,
         ae_fc2 = const_Linear 128 64 0 0\<rparr>,
      action_scorer =
        \<lparr>as_fc1 = const_Linear (256 + 64) 128 0 0, as_ln1 = const_LayerNorm 128 1 0,
         as_fc2 = const_Linear 128 1 0 0\<rparr>,
      value_head = \<lparr>vh_fc1 = const_Linear 256 128 0 0, vh_fc2 = const_Linear 128 1 0 0\<rparr>\<rparr>"

definition example_fresh :: PolicyValueNetwork where
  "example_fresh =
     \<lparr>state_encoder =
        \<lparr>se_fc1 = const_Linear STATE_SIZE 512 (1 / 2) 0, se_ln1 = const_LayerNorm 512 1 0,
         se_fc2 = const_Linear 512 256 (1 / 2) 0, se_ln2 = const_LayerNorm 256 1 0\<rparr>,
      value_state_encoder =
        \<lparr>se_fc1 = const_Linear STATE_SIZE 512 (1 / 2) 0, se_ln1 = const_LayerNorm 512 1 0,
         se_fc2 = const_Linear 512 256 (1 / 2) 0, se_ln2 = const_LayerNorm 256 1 0\<rparr>,
      action_encoder =
        \<lparr>ae_fc1 = const_Linear ACTION_SIZE 128 (1 / 2) 0, ae_ln1 = const_LayerNorm 128 1 0,
         ae_fc2 = const_Linear 128 64 (1 / 2) 0\<rparr>,
      action_scorer =
        \<lparr>as_fc1 = const_Linear (256 + 64) 128 (1 / 2) 0, as_ln1 = const_LayerNorm 128 1 0,
         as_fc2 = const_Linear 128 1 (1 / 2) 0\<rparr>,
      value_head =
        \<lparr>vh_fc1 = const_Linear 256 128 (1 / 2) 0, vh_fc2 = const_Linear 128 1 (1 / 2) 0\<rparr>\<rparr>"

definition example_states :: "vec list" where
  "example_states = [replicate STATE_SIZE (Fin 0)]"

definition example_actions :: "vec list list" where
  "example_actions = [[replicate ACTION_SIZE (Fin 0), replicate ACTION_SIZE (Fin 1)]]"

definition huge :: real where
  "huge = 2 ^ 127"

definition huge_states :: "vec list" where
  "huge_states = [replicate STATE_SIZE (Fin huge)]"

section \<open>Properties of values and masks\<close>

text \<open>
  Every value is a finite number in \<open>[-1, 1]\<close>; every value is such a number or NaN; the
  row that is \<open>1\<close> at position \<open>i\<close> and \<open>0\<close> elsewhere; a mask row whose only non-zero
  entry is at position \<open>i\<close>; a mask row that is zero everywhere.
\<close>

definition in_unit_interval :: "fp list \<Rightarrow> bool" where
  "in_unit_interval values =
     list_all (\<lambda>v. case v of Fin r \<Rightarrow> - 1 \<le> r \<and> r \<le> 1 | _ \<Rightarrow> False) values"

definition in_unit_interval_or_nan :: "fp list \<Rightarrow> bool" where
  "in_unit_interval_or_nan values =
     list_all (\<lambda>v. case v of Fin r \<Rightarrow> - 1 \<le> r \<and> r \<le> 1 | NaN \<Rightarrow> True | _ \<Rightarrow> False) values"

definition one_hot :: "nat \<Rightarrow> nat \<Rightarrow> fp list" where
  "one_hot n i = (replicate n (Fin 0))[i := Fin 1]"

definition only_valid :: "real list \<Rightarrow> nat \<Rightarrow> bool" where
  "only_valid k i \<longleftrightarrow> i < length k \<and> list_all (\<lambda>j. (k ! j \<noteq> 0) = (j = i)) [0..<length k]"

definition all_masked :: "real list \<Rightarrow> bool" where
  "all_masked k = list_all (\<lambda>kk. kk = 0) k"

section \<open>The generic executor\<close>

text \<open>
  Modelled from the spec: the generic executor that replays a manifest (the adapter that
  does so is not among the sources). It applies the operations in their listed order to
  a 2-D input. A \<^verbatim>\<open>linear\<close> operation takes the entry under its key and computes
  \<open>input \<cdot> kernel + bias\<close>, a \<^verbatim>\<open>layernorm\<close> operation standardizes every row and applies
  the \<open>gamma\<close> and \<open>beta\<close> under its key, \<^verbatim>\<open>relu\<close> and \<^verbatim>\<open>tanh\<close> act elementwise.
\<close>

definition affine_row :: "mat \<Rightarrow> vec \<Rightarrow> vec \<Rightarrow> vec" where
  "affine_row K b x =
     map (\<lambda>j. fadd (fsum (map2 (\<lambda>xi krow. fmul xi (krow ! j)) x K)) (b ! j)) [0..<length b]"

definition executor_linear :: "mat \<Rightarrow> vec \<Rightarrow> vec list \<Rightarrow> error + vec list" where
  "executor_linear K b X =
     (if list_all (\<lambda>x. length x = length K) X \<and> list_all (\<lambda>krow. length krow = length b) K
      then Inr (map (affine_row K b) X) else Inl ShapeMismatch)"

definition executor_layernorm :: "vec \<Rightarrow> vec \<Rightarrow> vec list \<Rightarrow> error + vec list" where
  "executor_layernorm g b X =
     (if length g = length b \<and> list_all (\<lambda>x. length x = length g) X
      then Inr (map (layer_norm_row g b) X) else Inl ShapeMismatch)"

definition apply_operation :: "archive \<Rightarrow> operation \<Rightarrow> vec list \<Rightarrow> error + vec list" where
  "apply_operation weights oper X =
     (if op oper = ''linear'' then
        (case key oper of
           None \<Rightarrow> Inl (KeyError ''key'')
         | Some k \<Rightarrow>
            (case weights k of
               Some (LinearEntry K b) \<Rightarrow> executor_linear K b X
             | _ \<Rightarrow> Inl (KeyError k)))
      else if op oper = ''layernorm'' then
        (case key oper of
           None \<Rightarrow> Inl (KeyError ''key'')
         | Some k \<Rightarrow>
            (case weights k of
               Some (LayerNormEntry g b) \<Rightarrow> executor_layernorm g b X
             | _ \<Rightarrow> Inl (KeyError k)))
      else if op oper = ''relu'' then Inr (relu X)
      else if op oper = ''tanh'' then Inr (tanh_t X)
      else Inl ValueError)"

fun replay :: "archive \<Rightarrow> operation list \<Rightarrow> vec list \<Rightarrow> error + vec list" where
  "replay weights [] X = Inr X"
| "replay weights (oper # ops) X = ebind (apply_operation weights oper X) (replay weights ops)"

text \<open>Shape of an operation sequence: a \<^verbatim>\<open>relu\<close> right after every \<^verbatim>\<open>layernorm\<close>.\<close>

fun relu_after_layernorm :: "operation list \<Rightarrow> bool" where
  "relu_after_layernorm [] = True"
| "relu_after_layernorm (oper # ops) =
     ((if op oper = ''layernorm''
       then (case ops of [] \<Rightarrow> False | nxt # _ \<Rightarrow> op nxt = ''relu'') else True)
      \<and> relu_after_layernorm ops)"

definition ends_with_tanh_without_layernorm :: "operation list \<Rightarrow> bool" where
  "ends_with_tanh_without_layernorm ops \<longleftrightarrow>
     ops \<noteq> [] \<and> op (last ops) = ''tanh'' \<and> list_all (\<lambda>oper. op oper \<noteq> ''layernorm'') ops"

text \<open>The linear layers of a model with the keys under which they are exported.\<close>

definition linear_layers :: "PolicyValueNetwork \<Rightarrow> (string \<times> Linear) list" where
  "linear_layers model =
     concat (map (\<lambda>(component_name, mods).
        concat (map (\<lambda>(name, mdl).
          case mdl of LinearModule l \<Rightarrow> [(component_name @ ''_'' @ name, l)] | _ \<Rightarrow> []) mods))
       (components model))"

definition stored_for_executor :: "archive \<Rightarrow> string \<times> Linear \<Rightarrow> bool" where
  "stored_for_executor weights kl \<longleftrightarrow>
     (case weights (fst kl) of
        Some (LinearEntry K b) \<Rightarrow> (\<forall>X. executor_linear K b X = linear (snd kl) X)
      | _ \<Rightarrow> False)"

text \<open>
  The keys that \<^verbatim>\<open>load_weights\<close> reads unconditionally, by the kind of entry it expects
  there, and the keys of the value-path state encoder. An entry is usable when it has the
  fields of its kind and \<^verbatim>\<open>np.array\<close> accepts its kernel.
\<close>

definition mandatory_linear_keys :: "string list" where
  "mandatory_linear_keys =
     [''state_encoder_fc1'', ''state_encoder_fc2'', ''action_encoder_fc1'',
      ''action_encoder_fc2'', ''action_scorer_fc1'', ''action_scorer_fc2'',
      ''value_head_fc1'', ''value_head_fc2'']"

definition mandatory_layernorm_keys :: "string list" where
  "mandatory_layernorm_keys =
     [''state_encoder_ln1'', ''state_encoder_ln2'', ''action_encoder_ln1'',
      ''action_scorer_ln1'']"

definition value_state_encoder_keys :: "string list" where
  "value_state_encoder_keys =
     [''value_state_encoder_fc1'', ''value_state_encoder_ln1'',
      ''value_state_encoder_fc2'', ''value_state_encoder_ln2'']"

definition linear_entry_ok :: "archive \<Rightarrow> string \<Rightarrow> bool" where
  "linear_entry_ok weights k =
     (case weights k of Some (LinearEntry K b) \<Rightarrow> rectangular K | _ \<Rightarrow> False)"

definition layernorm_entry_ok :: "archive \<Rightarrow> string \<Rightarrow> bool" where
  "layernorm_entry_ok weights k =
     (case weights k of Some (LayerNormEntry g b) \<Rightarrow> True | _ \<Rightarrow> False)"

text \<open>The line that \<^verbatim>\<open>load_weights\<close> prints when it skips the value-path encoder.\<close>

definition fallback_notice :: string where
  "fallback_notice = ''  Note: value_state_encoder not found in weights, using random init''"

text \<open>
  An archive with the entries of the value-path state encoder removed, as an archive
  written before that encoder existed; and the archive exported for the example model
  with the version replaced by \<open>99\<close>.
\<close>

definition without_value_state_encoder :: "archive \<Rightarrow> archive" where
  "without_value_state_encoder weights =
     weights(''value_state_encoder_fc1'' := None, ''value_state_encoder_ln1'' := None,
             ''value_state_encoder_fc2'' := None, ''value_state_encoder_ln2'' := None)"

definition unknown_version_archive :: archive where
  "unknown_version_archive =
     (fst (export_weights example_model ''w.json''))
       (''_meta'' \<mapsto> Meta \<lparr>version = 99, state_size = STATE_SIZE, action_size = ACTION_SIZE,
                             graph = build_graph_manifest example_model\<rparr>)"

text \<open>
  The encoder as the claim words it: the first affine layer is followed by the
  normalization and the rectifying nonlinearity, the last affine layer by nothing.
\<close>

definition encoder_as_claimed ::
  "Linear \<Rightarrow> LayerNorm \<Rightarrow> Linear \<Rightarrow> vec list \<Rightarrow> error + vec list" where
  "encoder_as_claimed fc1 ln1 fc2 X =
     ebind (linear fc1 X) (\<lambda>a.
     ebind (layer_norm ln1 a) (\<lambda>b.
     linear fc2 (relu b)))"

text \<open>No entry is negative (an entry may be NaN or \<open>+inf\<close>).\<close>

definition nonnegative :: "vec list \<Rightarrow> bool" where
  "nonnegative Y =
     list_all (list_all (\<lambda>v. case v of Fin r \<Rightarrow> 0 \<le> r | NegInf \<Rightarrow> False | _ \<Rightarrow> True)) Y"

section \<open>Regrouping flat lists\<close>

lemma ebind_Inr: "ebind (Inr v) f = f v" by (simp add: ebind_def)
lemma ebind_Inl: "ebind (Inl e) f = Inl e" by (simp add: ebind_def)

lemma take_drop_concat:
  assumes "\<forall>r\<in>set rows. length r = n" "i < length rows"
  shows "take n (drop (i * n) (concat rows)) = rows ! i"
  using assms
proof (induction rows arbitrary: i)
  case Nil then show ?case by simp
next
  case (Cons r rows)
  show ?case
  proof (cases i)
    case 0 with Cons.prems show ?thesis by simp
  next
    case (Suc j)
    with Cons.prems have "j < length rows" "length r = n" by auto
    moreover have "\<forall>r\<in>set rows. length r = n" using Cons.prems by simp
    ultimately show ?thesis using Cons.IH[of j] Suc by (simp add: drop_append)
  qed
qed

lemma length_concat_uniform:
  "\<forall>r\<in>set rows. length r = n \<Longrightarrow> length (concat rows) = length rows * n"
  by (induction rows) auto

lemma chunks_concat:
  assumes "\<forall>r\<in>set rows. length r = n" "0 < n"
  shows "chunks n (concat rows) = rows"
proof -
  have len: "length (concat rows) = length rows * n"
    using assms(1) by (rule length_concat_uniform)
  show ?thesis
  proof (rule nth_equalityI)
    show "length (chunks n (concat rows)) = length rows"
      using assms(2) by (simp add: chunks_def len)
  next
    fix i assume "i < length (chunks n (concat rows))"
    then have "i < length rows" using assms(2) by (simp add: chunks_def len)
    then show "chunks n (concat rows) ! i = rows ! i"
      using assms take_drop_concat[of rows n i] by (simp add: chunks_def len)
  qed
qed

lemma regroup_concat:
  assumes "\<forall>r\<in>set rows. length r = n" "length rows = b"
  shows "map (\<lambda>i. take n (drop (i * n) (concat rows))) [0..<b] = rows"
proof (rule nth_equalityI)
  show "length (map (\<lambda>i. take n (drop (i * n) (concat rows))) [0..<b]) = length rows"
    using assms by simp
next
  fix i assume "i < length (map (\<lambda>i. take n (drop (i * n) (concat rows))) [0..<b])"
  then have "i < length rows" using assms by simp
  then show "map (\<lambda>i. take n (drop (i * n) (concat rows))) [0..<b] ! i = rows ! i"
    using assms take_drop_concat[of rows n i] by simp
qed

section \<open>The sub-networks on well-shaped tensors\<close>

lemma length_linear_row:
  "Linear_shape n_in n_out l \<Longrightarrow> length (linear_row l x) = n_out"
  by (simp add: Linear_shape_def linear_row_def)

lemma linear_shaped:
  assumes "Linear_shape n_in n_out l" "\<forall>x\<in>set X. length x = n_in"
  shows "linear l X = Inr (map (linear_row l) X)"
  using assms by (auto simp: linear_def Linear_shape_def list_all_iff)

lemma length_layer_norm_row:
  "length w = n \<Longrightarrow> length b = n \<Longrightarrow> length x = n \<Longrightarrow> length (layer_norm_row w b x) = n"
  by (simp add: layer_norm_row_def)

lemma layer_norm_shaped:
  assumes "LayerNorm_shape n l" "\<forall>x\<in>set X. length x = n"
  shows "layer_norm l X = Inr (map (layer_norm_row (ln_weight l) (ln_bias l)) X)"
  using assms by (auto simp: layer_norm_def LayerNorm_shape_def list_all_iff)

lemma length_relu_row: "length (relu_row x) = length x"
  by (simp add: relu_row_def)

lemma squeeze_last_shaped:
  assumes "\<forall>x\<in>set X. length x = 1"
  shows "squeeze_last X = Inr (map hd X)"
  using assms by (simp add: squeeze_last_def list_all_iff)

lemma StateEncoder_forward_shaped:
  assumes "StateEncoder_shape enc" "\<forall>x\<in>set X. length x = STATE_SIZE"
  shows "StateEncoder_forward enc X = Inr (map (StateEncoder_row enc) X)"
proof -
  from assms(1) have s: "Linear_shape STATE_SIZE 512 (se_fc1 enc)" "LayerNorm_shape 512 (se_ln1 enc)"
    "Linear_shape 512 256 (se_fc2 enc)" "LayerNorm_shape 256 (se_ln2 enc)"
    by (simp_all add: StateEncoder_shape_def)
  have w: "length (ln_weight (se_ln1 enc)) = 512" "length (ln_bias (se_ln1 enc)) = 512"
    using s(2) by (simp_all add: LayerNorm_shape_def)
  have 1: "linear (se_fc1 enc) X = Inr (map (linear_row (se_fc1 enc)) X)"
    using s(1) assms(2) by (rule linear_shaped)
  have 2: "\<And>Y. \<forall>y\<in>set Y. length y = 512 \<Longrightarrow> layer_norm (se_ln1 enc) Y =
      Inr (map (layer_norm_row (ln_weight (se_ln1 enc)) (ln_bias (se_ln1 enc))) Y)"
    by (rule layer_norm_shaped[OF s(2)])
  have 3: "\<And>Y. \<forall>y\<in>set Y. length y = 512 \<Longrightarrow> linear (se_fc2 enc) Y =
      Inr (map (linear_row (se_fc2 enc)) Y)"
    by (rule linear_shaped[OF s(3)])
  have 4: "\<And>Y. \<forall>y\<in>set Y. length y = 256 \<Longrightarrow> layer_norm (se_ln2 enc) Y =
      Inr (map (layer_norm_row (ln_weight (se_ln2 enc)) (ln_bias (se_ln2 enc))) Y)"
    by (rule layer_norm_shaped[OF s(4)])
  show ?thesis
    unfolding StateEncoder_forward_def
    by (simp add: 1 2 3 4 ebind_Inr relu_def StateEncoder_row_def w length_relu_row
        length_layer_norm_row length_linear_row[OF s(1)] length_linear_row[OF s(3)])
qed

lemma length_StateEncoder_row:
  assumes "StateEncoder_shape enc"
  shows "length (StateEncoder_row enc x) = 256"
proof -
  from assms have s: "Linear_shape 512 256 (se_fc2 enc)" "LayerNorm_shape 256 (se_ln2 enc)"
    by (simp_all add: StateEncoder_shape_def)
  show ?thesis
    using s(2) unfolding StateEncoder_row_def
    by (simp add: length_relu_row LayerNorm_shape_def length_layer_norm_row length_linear_row[OF s(1)])
qed

lemma ActionEncoder_forward_shaped:
  assumes "ActionEncoder_shape enc" "\<forall>x\<in>set X. length x = ACTION_SIZE"
  shows "ActionEncoder_forward enc X = Inr (map (ActionEncoder_row enc) X)"
proof -
  from assms(1) have s: "Linear_shape ACTION_SIZE 128 (ae_fc1 enc)" "LayerNorm_shape 128 (ae_ln1 enc)"
    "Linear_shape 128 64 (ae_fc2 enc)"
    by (simp_all add: ActionEncoder_shape_def)
  have w: "length (ln_weight (ae_ln1 enc)) = 128" "length (ln_bias (ae_ln1 enc)) = 128"
    using s(2) by (simp_all add: LayerNorm_shape_def)
  have 1: "linear (ae_fc1 enc) X = Inr (map (linear_row (ae_fc1 enc)) X)"
    using s(1) assms(2) by (rule linear_shaped)
  have 2: "\<And>Y. \<forall>y\<in>set Y. length y = 128 \<Longrightarrow> layer_norm (ae_ln1 enc) Y =
      Inr (map (layer_norm_row (ln_weight (ae_ln1 enc)) (ln_bias (ae_ln1 enc))) Y)"
    by (rule layer_norm_shaped[OF s(2)])
  have 3: "\<And>Y. \<forall>y\<in>set Y. length y = 128 \<Longrightarrow> linear (ae_fc2 enc) Y =
      Inr (map (linear_row (ae_fc2 enc)) Y)"
    by (rule linear_shaped[OF s(3)])
  show ?thesis
    unfolding ActionEncoder_forward_def
    by (simp add: 1 2 3 ebind_Inr relu_def ActionEncoder_row_def w length_relu_row
        length_layer_norm_row length_linear_row[OF s(1)])
qed

lemma length_ActionEncoder_row:
  assumes "ActionEncoder_shape enc"
  shows "length (ActionEncoder_row enc x) = 64"
proof -
  from assms have s: "Linear_shape 128 64 (ae_fc2 enc)"
    by (simp_all add: ActionEncoder_shape_def)
  show ?thesis unfolding ActionEncoder_row_def by (simp add: length_linear_row[OF s])
qed

lemma ActionScorer_forward_shaped:
  assumes "ActionScorer_shape sc" "length S = length A"
    "\<forall>x\<in>set S. length x = 256" "\<forall>x\<in>set A. length x = 64"
  shows "ActionScorer_forward sc S A = Inr (map2 (ActionScorer_row sc) S A)"
proof -
  from assms(1) have s: "Linear_shape (256 + 64) 128 (as_fc1 sc)" "LayerNorm_shape 128 (as_ln1 sc)"
    "Linear_shape 128 1 (as_fc2 sc)"
    by (simp_all add: ActionScorer_shape_def)
  have w: "length (ln_weight (as_ln1 sc)) = 128" "length (ln_bias (as_ln1 sc)) = 128"
    using s(2) by (simp_all add: LayerNorm_shape_def)
  define X where "X = map2 (@) S A"
  have 0: "cat_last S A = Inr X" using assms(2) by (simp add: cat_last_def X_def)
  have lx: "\<forall>x\<in>set X. length x = 256 + 64"
    using assms(3,4) unfolding X_def by (auto simp: set_zip)
  have 1: "linear (as_fc1 sc) X = Inr (map (linear_row (as_fc1 sc)) X)"
    using s(1) lx by (rule linear_shaped)
  have 2: "\<And>Y. \<forall>y\<in>set Y. length y = 128 \<Longrightarrow> layer_norm (as_ln1 sc) Y =
      Inr (map (layer_norm_row (ln_weight (as_ln1 sc)) (ln_bias (as_ln1 sc))) Y)"
    by (rule layer_norm_shaped[OF s(2)])
  have 3: "\<And>Y. \<forall>y\<in>set Y. length y = 128 \<Longrightarrow> linear (as_fc2 sc) Y =
      Inr (map (linear_row (as_fc2 sc)) Y)"
    by (rule linear_shaped[OF s(3)])
  have 4: "\<And>Y. \<forall>y\<in>set Y. length y = 1 \<Longrightarrow> squeeze_last Y = Inr (map hd Y)"
    by (rule squeeze_last_shaped)
  have "ActionScorer_forward sc S A = Inr (map (\<lambda>x. hd (linear_row (as_fc2 sc)
       (relu_row (layer_norm_row (ln_weight (as_ln1 sc)) (ln_bias (as_ln1 sc))
         (linear_row (as_fc1 sc) x))))) X)"
    unfolding ActionScorer_forward_def
    by (simp add: 0 1 2 3 4 ebind_Inr relu_def w length_relu_row
        length_layer_norm_row length_linear_row[OF s(1)] length_linear_row[OF s(3)])
  also have "map (\<lambda>x. hd (linear_row (as_fc2 sc)
       (relu_row (layer_norm_row (ln_weight (as_ln1 sc)) (ln_bias (as_ln1 sc))
         (linear_row (as_fc1 sc) x))))) X = map2 (ActionScorer_row sc) S A"
    unfolding X_def ActionScorer_row_def by (simp add: split_def)
  finally show ?thesis .
qed

lemma ValueHead_forward_shaped:
  assumes "ValueHead_shape vh" "\<forall>x\<in>set X. length x = 256"
  shows "ValueHead_forward vh X = Inr (map (ValueHead_row vh) X)"
proof -
  from assms(1) have s: "Linear_shape 256 128 (vh_fc1 vh)" "Linear_shape 128 1 (vh_fc2 vh)"
    by (simp_all add: ValueHead_shape_def)
  have 1: "linear (vh_fc1 vh) X = Inr (map (linear_row (vh_fc1 vh)) X)"
    using s(1) assms(2) by (rule linear_shaped)
  have 2: "\<And>Y. \<forall>y\<in>set Y. length y = 128 \<Longrightarrow> linear (vh_fc2 vh) Y =
      Inr (map (linear_row (vh_fc2 vh)) Y)"
    by (rule linear_shaped[OF s(2)])
  have 3: "\<And>Y. \<forall>y\<in>set Y. length y = 1 \<Longrightarrow> squeeze_last Y = Inr (map hd Y)"
    by (rule squeeze_last_shaped)
  have hd_tanh: "\<And>y. hd (map ftanh (linear_row (vh_fc2 vh) y)) = ftanh (hd (linear_row (vh_fc2 vh) y))"
  proof -
    fix y
    have "length (linear_row (vh_fc2 vh) y) = 1" by (rule length_linear_row[OF s(2)])
    then have "linear_row (vh_fc2 vh) y \<noteq> []" by auto
    then show "hd (map ftanh (linear_row (vh_fc2 vh) y)) = ftanh (hd (linear_row (vh_fc2 vh) y))"
      by (rule hd_map)
  qed
  show ?thesis
    unfolding ValueHead_forward_def
    by (simp add: 1 2 3 ebind_Inr relu_def ValueHead_row_def tanh_t_def hd_tanh
        length_relu_row length_linear_row[OF s(1)] length_linear_row[OF s(2)])
qed

section \<open>The forward pass on a well-shaped batch\<close>

lemma map2_concat_replicate:
  assumes "length E = length R" "\<forall>r\<in>set R. length r = M"
  shows "map2 f (concat (map (replicate M) E)) (concat R) = concat (map2 (\<lambda>e r. map (f e) r) E R)"
  using assms
proof (induction E R rule: list_induct2)
  case Nil then show ?case by simp
next
  case (Cons e E r R)
  have "map2 f (replicate M e) r = map (f e) r"
    using Cons.prems by (auto intro!: nth_equalityI)
  then show ?case using Cons by (simp add: zip_append)
qed

lemma forward_shaped:
  assumes m: "PolicyValueNetwork_shape m"
    and b: "batch_shape B M states action_features action_mask"
    and pos: "0 < B" "0 < M"
  shows "forward m states action_features action_mask =
    Inr (map (\<lambda>(s, acts, k). row_scores m s acts k) (zip states (zip action_features action_mask)),
         map (row_value m) states)"
proof -
  from m have sh: "StateEncoder_shape (state_encoder m)" "StateEncoder_shape (value_state_encoder m)"
    "ActionEncoder_shape (action_encoder m)" "ActionScorer_shape (action_scorer m)"
    "ValueHead_shape (value_head m)"
    by (simp_all add: PolicyValueNetwork_shape_def)
  from b have ls: "length states = B" and ss: "\<forall>s\<in>set states. length s = STATE_SIZE"
    and la: "length action_features = B"
    and ra: "\<forall>r\<in>set action_features. length r = M"
    and aa: "\<forall>a\<in>set (concat action_features). length a = ACTION_SIZE"
    and lk: "length action_mask = B" and rk: "\<forall>k\<in>set action_mask. length k = M"
    by (auto simp: batch_shape_def list_all_iff)
  define E where "E = map (StateEncoder_row (state_encoder m)) states"
  define V where "V = map (StateEncoder_row (value_state_encoder m)) states"
  define f where "f = ActionEncoder_row (action_encoder m)"
  define g where "g = ActionScorer_row (action_scorer m)"
  define R where "R = map (map f) action_features"
  define S where "S = map2 (\<lambda>e r. map (g e) r) E R"
  have 1: "StateEncoder_forward (state_encoder m) states = Inr E"
    unfolding E_def using sh(1) ss by (rule StateEncoder_forward_shaped)
  have 2: "StateEncoder_forward (value_state_encoder m) states = Inr V"
    unfolding V_def using sh(2) ss by (rule StateEncoder_forward_shaped)
  have mx: "(case action_features of [] \<Rightarrow> 0 | r # _ \<Rightarrow> length r) = M"
    using la pos(1) ra by (cases action_features) auto
  have lflat: "length (concat (concat action_features)) = length (concat action_features) * ACTION_SIZE"
    using aa by (rule length_concat_uniform)
  have 3: "reshape_rows ACTION_SIZE (concat (concat action_features)) = Inr (concat action_features)"
    using chunks_concat[OF aa] by (simp add: reshape_rows_def lflat ACTION_SIZE_def)
  have 4: "ActionEncoder_forward (action_encoder m) (concat action_features) = Inr (concat R)"
    using ActionEncoder_forward_shaped[OF sh(3) aa] by (simp add: R_def f_def map_concat)
  have rR: "\<forall>r\<in>set R. length r = M" using ra by (auto simp: R_def)
  have lR: "length R = B" using la by (simp add: R_def)
  have lcR: "length (concat R) = B * M"
    using length_concat_uniform[OF rR] lR by simp
  have 5: "reshape_infer B M (concat R) = Inr R"
    using chunks_concat[OF rR pos(2)] pos by (simp add: reshape_infer_def lcR)
  have lE: "length E = B" using ls by (simp add: E_def)
  have eE: "\<forall>e\<in>set E. length e = 256"
    using length_StateEncoder_row[OF sh(1)] by (auto simp: E_def)
  have eV: "\<forall>e\<in>set V. length e = 256"
    using length_StateEncoder_row[OF sh(2)] by (auto simp: V_def)
  have lfs: "length (concat (map (replicate M) E)) = B * M"
    using length_concat_uniform[of "map (replicate M) E" M] lE by simp
  have efs: "\<forall>x\<in>set (concat (map (replicate M) E)). length x = 256"
    using eE by auto
  have efa: "\<forall>x\<in>set (concat R). length x = 64"
    using length_ActionEncoder_row[OF sh(3)] by (auto simp: R_def f_def)
  have 6: "ActionScorer_forward (action_scorer m) (concat (map (replicate M) E)) (concat R) = Inr (concat S)"
    using ActionScorer_forward_shaped[OF sh(4) _ efs efa] lfs lcR
      map2_concat_replicate[of E R M g] lE lR rR
    by (simp add: S_def g_def)
  have rS: "\<forall>r\<in>set S. length r = M" using rR by (auto simp: S_def set_zip)
  have lS: "length S = B" using lE lR by (simp add: S_def)
  have 7: "reshape2 B M (concat S) = Inr S"
    using regroup_concat[OF rS lS] length_concat_uniform[OF rS] lS by (simp add: reshape2_def)
  have l2: "list_all2 (\<lambda>s k. length s = length k) S action_mask"
    using rS rk lS lk by (auto simp: list_all2_conv_all_nth)
  have 8: "masked_fill S action_mask = Inr (map2 (map2 fill) S action_mask)"
    using l2 lS lk by (simp add: masked_fill_def fill_def[abs_def])
  have 9: "ValueHead_forward (value_head m) V = Inr (map (row_value m) states)"
    using ValueHead_forward_shaped[OF sh(5) eV] by (simp add: V_def row_value_def)
  have fin: "map2 (map2 fill) S action_mask =
      map (\<lambda>(s, acts, k). row_scores m s acts k) (zip states (zip action_features action_mask))"
    using ls la lk lE lR
    by (auto intro!: nth_equalityI simp: S_def R_def E_def row_scores_def raw_score_def g_def f_def)
  show ?thesis
    unfolding forward_def
    by (simp add: 1 2 mx la 3 4 5 6 7 8 9 fin ebind_Inr Let_def)
qed

section \<open>Softmax of a masked row\<close>

lemma FLT_MAX_ge_1: "1 \<le> FLT_MAX"
  by (simp add: FLT_MAX_def)

lemma fl_in_range: "- FLT_MAX \<le> r \<Longrightarrow> r \<le> FLT_MAX \<Longrightarrow> fl r = Fin r"
  by (simp add: fl_def)

lemma fl_unit: "0 \<le> r \<Longrightarrow> r \<le> 1 \<Longrightarrow> fl r = Fin r"
  using FLT_MAX_ge_1 by (intro fl_in_range) linarith+

lemma score_rowD: "score_row row \<Longrightarrow> x \<in> set row \<Longrightarrow> x = NegInf \<or> (\<exists>s. x = Fin s)"
proof -
  assume "score_row row" "x \<in> set row"
  then have "case x of Fin s \<Rightarrow> True | NegInf \<Rightarrow> True | _ \<Rightarrow> False"
    by (simp add: score_row_def list_all_iff)
  then show ?thesis by (cases x) simp_all
qed

lemma score_row_Cons: "score_row (x # row) \<longleftrightarrow> (x = NegInf \<or> (\<exists>s. x = Fin s)) \<and> score_row row"
  by (auto simp: score_row_def split: fp.splits)

lemma fold_fmax_from_Fin:
  assumes "score_row row"
  shows "\<exists>m. fold fmax row (Fin a) = Fin m \<and> a \<le> m \<and> (m = a \<or> Fin m \<in> set row)
    \<and> (\<forall>s. Fin s \<in> set row \<longrightarrow> s \<le> m)"
  using assms
proof (induction row arbitrary: a)
  case Nil then show ?case by simp
next
  case (Cons x row)
  from Cons.prems have x: "x = NegInf \<or> (\<exists>s. x = Fin s)" and r: "score_row row"
    by (simp_all add: score_row_Cons)
  from x show ?case
  proof
    assume "x = NegInf"
    then show ?thesis using Cons.IH[OF r, of a] by auto
  next
    assume "\<exists>s. x = Fin s"
    then obtain s where s: "x = Fin s" by blast
    obtain m where m: "fold fmax row (Fin (max s a)) = Fin m" "max s a \<le> m"
      "m = max s a \<or> Fin m \<in> set row" "\<forall>t. Fin t \<in> set row \<longrightarrow> t \<le> m"
      using Cons.IH[OF r, of "max s a"] by blast
    have "fold fmax (x # row) (Fin a) = Fin m" using s m(1) by simp
    moreover have "a \<le> m" using m(2) by simp
    moreover have "m = a \<or> Fin m \<in> set (x # row)" using m(3) s by (auto simp: max_def split: if_splits)
    moreover have "\<forall>t. Fin t \<in> set (x # row) \<longrightarrow> t \<le> m" using m(2,4) s by auto
    ultimately show ?thesis by blast
  qed
qed

lemma fold_fmax_scores:
  assumes "score_row row" "\<exists>s. Fin s \<in> set row"
  shows "\<exists>m. fold fmax row NegInf = Fin m \<and> Fin m \<in> set row
    \<and> (\<forall>s. Fin s \<in> set row \<longrightarrow> s \<le> m)"
  using assms
proof (induction row)
  case Nil then show ?case by simp
next
  case (Cons x row)
  from Cons.prems have x: "x = NegInf \<or> (\<exists>s. x = Fin s)" and r: "score_row row"
    by (simp_all add: score_row_Cons)
  from x show ?case
  proof
    assume n: "x = NegInf"
    then have "\<exists>s. Fin s \<in> set row" using Cons.prems(2) by auto
    then show ?thesis using Cons.IH[OF r] n by auto
  next
    assume "\<exists>s. x = Fin s"
    then obtain s where s: "x = Fin s" by blast
    obtain m where m: "fold fmax row (Fin s) = Fin m" "s \<le> m"
      "m = s \<or> Fin m \<in> set row" "\<forall>t. Fin t \<in> set row \<longrightarrow> t \<le> m"
      using fold_fmax_from_Fin[OF r, of s] by blast
    have "fold fmax (x # row) NegInf = Fin m" using s m(1) by simp
    moreover have "Fin m \<in> set (x # row)" using m(3) s by auto
    moreover have "\<forall>t. Fin t \<in> set (x # row) \<longrightarrow> t \<le> m" using m(2,4) s by auto
    ultimately show ?thesis by blast
  qed
qed

lemma fold_fmax_NegInf: "fold fmax (replicate n NegInf) NegInf = NegInf"
  by (induction n) simp_all

lemma fmax_NaN_right: "fmax x NaN = NaN"
  by (cases x) simp_all

lemma fold_fmax_acc_NaN: "fold fmax row NaN = NaN"
  by (induction row) (simp_all add: fmax_NaN_right)

lemma fold_fmax_NaN: "NaN \<in> set row \<Longrightarrow> fold fmax row a = NaN"
proof (induction row arbitrary: a)
  case Nil then show ?case by simp
next
  case (Cons x row)
  show ?case
  proof (cases "x = NaN")
    case True then show ?thesis by (simp add: fold_fmax_acc_NaN)
  next
    case False then show ?thesis using Cons by simp
  qed
qed

lemma wt_nonneg: "0 \<le> wt c x"
  by (simp add: wt_def split: fp.splits)

lemma wt_le_1: "x = NegInf \<or> (\<exists>s. x = Fin s \<and> s \<le> c) \<Longrightarrow> wt c x \<le> 1"
  by (auto simp: wt_def)

lemma wt_max: "wt c (Fin c) = 1"
  using FLT_MAX_ge_1 by (simp add: wt_def)

lemma fexp_fsub_score:
  assumes "x = NegInf \<or> (\<exists>s. x = Fin s \<and> s \<le> c)"
  shows "fexp (fsub x (Fin c)) = Fin (wt c x)"
  using assms
proof
  assume "x = NegInf" then show ?thesis by (simp add: fsub_def wt_def)
next
  assume "\<exists>s. x = Fin s \<and> s \<le> c"
  then obtain s where s: "x = Fin s" "s \<le> c" by blast
  show ?thesis
  proof (cases "s - c < - FLT_MAX")
    case True
    then have "fl (s - c) = NegInf" using FLT_MAX_ge_1 by (simp add: fl_def)
    then show ?thesis using True s by (simp add: fsub_def wt_def)
  next
    case False
    then have "fl (s - c) = Fin (s - c)" using s(2) FLT_MAX_ge_1 by (intro fl_in_range) linarith+
    moreover have "fl (exp (s - c)) = Fin (exp (s - c))" using s(2) by (intro fl_unit) simp_all
    ultimately show ?thesis using False s by (simp add: fsub_def wt_def)
  qed
qed

lemma fold_fadd_Fin:
  assumes "\<forall>w\<in>set ws. 0 \<le> w" "0 \<le> a" "a + sum_list ws \<le> FLT_MAX"
  shows "fold (\<lambda>x acc. fadd acc x) (map Fin ws) (Fin a) = Fin (a + sum_list ws)"
  using assms
proof (induction ws arbitrary: a)
  case Nil then show ?case by simp
next
  case (Cons w ws)
  have nn: "0 \<le> sum_list ws" using Cons.prems(1) by (intro sum_list_nonneg) simp
  have w: "0 \<le> w" using Cons.prems(1) by simp
  have "fl (a + w) = Fin (a + w)"
  proof (rule fl_in_range)
    show "- FLT_MAX \<le> a + w" using Cons.prems(2) w FLT_MAX_ge_1 by linarith
    have "a + w \<le> a + sum_list (w # ws)" using nn by simp
    then show "a + w \<le> FLT_MAX" using Cons.prems(3) by linarith
  qed
  moreover have "fold (\<lambda>x acc. fadd acc x) (map Fin ws) (Fin (a + w)) = Fin (a + w + sum_list ws)"
    using Cons.prems w by (intro Cons.IH) (simp_all add: algebra_simps)
  ultimately show ?case by (simp add: algebra_simps)
qed

lemma fsum_Fin:
  assumes "\<forall>w\<in>set ws. 0 \<le> w" "sum_list ws \<le> FLT_MAX"
  shows "fsum (map Fin ws) = Fin (sum_list ws)"
  using fold_fadd_Fin[OF assms(1), of 0] assms(2) by (simp add: fsum_def)

lemma fadd_NaN_left: "fadd NaN x = NaN"
  by simp

lemma fadd_NaN_right: "fadd x NaN = NaN"
  by (cases x) simp_all

lemma fold_fadd_acc_NaN: "fold (\<lambda>x acc. fadd acc x) xs NaN = NaN"
  by (induction xs) simp_all

lemma fold_fadd_NaN: "NaN \<in> set xs \<Longrightarrow> fold (\<lambda>x acc. fadd acc x) xs a = NaN"
proof (induction xs arbitrary: a)
  case Nil then show ?case by simp
next
  case (Cons x xs)
  show ?case
  proof (cases "x = NaN")
    case True then show ?thesis by (simp add: fadd_NaN_right fold_fadd_acc_NaN)
  next
    case False then show ?thesis using Cons by simp
  qed
qed

lemma fsum_NaN: "NaN \<in> set xs \<Longrightarrow> fsum xs = NaN"
  by (simp add: fsum_def fold_fadd_NaN)

lemma member_le_sum_list_real:
  fixes xs :: "real list"
  assumes "\<forall>x\<in>set xs. 0 \<le> x" "y \<in> set xs"
  shows "y \<le> sum_list xs"
  using assms
proof (induction xs)
  case Nil then show ?case by simp
next
  case (Cons x xs)
  have nn: "0 \<le> sum_list xs" using Cons.prems(1) by (intro sum_list_nonneg) simp
  show ?case
  proof (cases "y = x")
    case True then show ?thesis using nn by simp
  next
    case False
    then have "y \<le> sum_list xs" using Cons by simp
    moreover have "0 \<le> x" using Cons.prems(1) by simp
    ultimately show ?thesis by simp
  qed
qed


text \<open>
  The softmax of a row of finite and \<open>-inf\<close> scores with at least one finite score, when
  the sum of the weights stays in the float range: every entry is the weight divided by
  the sum of the weights.
\<close>

lemma softmax_scores:
  assumes sr: "score_row row" and ex: "\<exists>s. Fin s \<in> set row"
  shows "\<exists>c. Fin c \<in> set row \<and> (\<forall>s. Fin s \<in> set row \<longrightarrow> s \<le> c)
    \<and> (sum_list (map (wt c) row) \<le> FLT_MAX \<longrightarrow>
          softmax row = map (\<lambda>x. Fin (wt c x / sum_list (map (wt c) row))) row)
    \<and> 1 \<le> sum_list (map (wt c) row)
    \<and> (\<forall>x\<in>set row. wt c x \<le> 1)"
proof -
  obtain c where c: "fold fmax row NegInf = Fin c" "Fin c \<in> set row"
    "\<forall>s. Fin s \<in> set row \<longrightarrow> s \<le> c"
    using fold_fmax_scores[OF sr ex] by blast
  define S where "S = sum_list (map (wt c) row)"
  have el: "x = NegInf \<or> (\<exists>s. x = Fin s \<and> s \<le> c)" if "x \<in> set row" for x
    using score_rowD[OF sr that] c(3) that by auto
  have e: "map (\<lambda>x. fexp (fsub x (Fin c))) row = map Fin (map (wt c) row)"
    using el by (simp add: fexp_fsub_score)
  have le1: "\<forall>x\<in>set row. wt c x \<le> 1" using el wt_le_1 by blast
  have "wt c (Fin c) \<in> set (map (wt c) row)" using c(2) by (simp del: wt_def)
  then have "wt c (Fin c) \<le> S"
    unfolding S_def by (intro member_le_sum_list_real) (auto simp: wt_nonneg)
  then have S1: "1 \<le> S" by (simp add: wt_max)
  have sm: "softmax row = map (\<lambda>x. Fin (wt c x / S)) row" if "S \<le> FLT_MAX"
  proof -
    have s: "fsum (map Fin (map (wt c) row)) = Fin S"
      unfolding S_def by (rule fsum_Fin) (use that in \<open>auto simp: wt_nonneg S_def\<close>)
    have "softmax row = map (\<lambda>v. fdiv v (Fin S)) (map Fin (map (wt c) row))"
      by (simp only: softmax_def Let_def c(1) e s)
    also have "\<dots> = map (\<lambda>x. Fin (wt c x / S)) row"
    proof -
      have "fdiv (Fin (wt c x)) (Fin S) = Fin (wt c x / S)" if "x \<in> set row" for x
      proof -
        have "wt c x \<le> S"
          unfolding S_def using that
          by (intro member_le_sum_list_real) (auto simp: wt_nonneg)
        then have "fl (wt c x / S) = Fin (wt c x / S)"
          using S1 wt_nonneg[of c x] by (intro fl_unit) (simp_all add: divide_le_eq_1)
        then show ?thesis using S1 by simp
      qed
      then show ?thesis by simp
    qed
    finally show ?thesis .
  qed
  show ?thesis using c(2,3) sm S1 le1 unfolding S_def by blast
qed



lemma get_policy_and_value_shaped:
  assumes m: "PolicyValueNetwork_shape m"
    and b: "batch_shape B M states action_features action_mask"
    and pos: "0 < B" "0 < M"
  shows "get_policy_and_value m states action_features action_mask =
    Inr (map (\<lambda>(s, acts, k). softmax (row_scores m s acts k))
           (zip states (zip action_features action_mask)),
         map (row_value m) states)"
  unfolding get_policy_and_value_def forward_shaped[OF assms]
  by (simp add: ebind_Inr split_def)

section \<open>The example models evaluated\<close>

lemma const_Linear_shape: "Linear_shape n_in n_out (const_Linear n_in n_out w b)"
  by (simp add: Linear_shape_def const_Linear_def list_all_iff)

lemma const_LayerNorm_shape: "LayerNorm_shape n (const_LayerNorm n g b)"
  by (simp add: LayerNorm_shape_def const_LayerNorm_def)

lemma example_StateEncoder_shape: "StateEncoder_shape example_StateEncoder"
  by (simp add: example_StateEncoder_def StateEncoder_shape_def
      const_Linear_shape const_LayerNorm_shape)

lemma example_model_shape: "PolicyValueNetwork_shape example_model"
  by (simp add: PolicyValueNetwork_shape_def example_model_def example_StateEncoder_shape
      ActionEncoder_shape_def ActionScorer_shape_def ValueHead_shape_def
      const_Linear_shape const_LayerNorm_shape)

lemma example_fresh_shape: "PolicyValueNetwork_shape example_fresh"
  by (simp add: PolicyValueNetwork_shape_def example_fresh_def
      StateEncoder_shape_def ActionEncoder_shape_def ActionScorer_shape_def ValueHead_shape_def
      const_Linear_shape const_LayerNorm_shape)

lemma example_batch_shape:
  "length k = 2 \<Longrightarrow> batch_shape 1 2 example_states example_actions [k]"
  by (simp add: batch_shape_def example_states_def example_actions_def)

lemma huge_batch_shape:
  "length k = 2 \<Longrightarrow> batch_shape 1 2 huge_states example_actions [k]"
  by (simp add: batch_shape_def huge_states_def example_actions_def)

lemma fl_0: "fl 0 = Fin 0"
  using FLT_MAX_ge_1 by (simp add: fl_def)

lemma FLT_MAX_ge_1024: "1024 \<le> FLT_MAX"
  by (simp add: FLT_MAX_def)

lemma fl_small: "\<bar>r\<bar> \<le> 1024 \<Longrightarrow> fl r = Fin r"
  using FLT_MAX_ge_1024 by (intro fl_in_range) linarith+

lemma fsum_zeros: "fsum (replicate n (Fin 0)) = Fin 0"
proof -
  have "fold (\<lambda>x acc. fadd acc x) (replicate n (Fin 0)) (Fin 0) = Fin 0"
    by (induction n) (simp_all add: fl_0)
  then show ?thesis by (simp add: fsum_def)
qed

lemma dot_zero:
  assumes "\<forall>v\<in>set x. is_finite v"
  shows "dot x (replicate n (Fin 0)) = Fin 0"
proof -
  have "fmul v (Fin 0) = Fin 0" if "v \<in> set x" for v
    using assms that by (cases v) (auto simp: is_finite_def fl_0)
  then have "map2 fmul x (replicate n (Fin 0)) = replicate (min (length x) n) (Fin 0)"
    by (auto intro!: nth_equalityI)
  then show ?thesis by (simp add: dot_def fsum_zeros)
qed

lemma linear_row_const_zero:
  assumes "\<forall>v\<in>set x. is_finite v" "\<bar>b\<bar> \<le> 1024"
  shows "linear_row (const_Linear n_in n_out 0 b) x = replicate n_out (Fin b)"
  using assms
  by (auto intro!: nth_equalityI simp: linear_row_def const_Linear_def dot_zero fl_small)

lemma fold_fadd_replicate:
  assumes "\<bar>c\<bar> \<le> 1" "\<bar>a\<bar> + real n \<le> 1024"
  shows "fold (\<lambda>x acc. fadd acc x) (replicate n (Fin c)) (Fin a) = Fin (a + real n * c)"
  using assms
proof (induction n arbitrary: a)
  case 0 then show ?case by simp
next
  case (Suc n)
  have "fl (a + c) = Fin (a + c)" using Suc.prems by (intro fl_small) linarith
  moreover have "fold (\<lambda>x acc. fadd acc x) (replicate n (Fin c)) (Fin (a + c))
      = Fin (a + c + real n * c)"
    using Suc.prems by (intro Suc.IH) (simp, linarith)
  ultimately show ?case by (simp add: algebra_simps)
qed

lemma fsum_replicate:
  assumes "\<bar>c\<bar> \<le> 1" "n \<le> 1024"
  shows "fsum (replicate n (Fin c)) = Fin (real n * c)"
  using fold_fadd_replicate[OF assms(1), of 0 n] assms(2) by (simp add: fsum_def)

lemma mean_replicate:
  assumes "\<bar>c\<bar> \<le> 1" "n \<le> 1024" "0 < n"
  shows "mean (replicate n (Fin c)) = Fin c"
  using assms by (simp add: mean_def fsum_replicate fl_small)

lemma variance_replicate:
  assumes "\<bar>c\<bar> \<le> 1" "n \<le> 1024" "0 < n"
  shows "variance (replicate n (Fin c)) = Fin 0"
  using assms
  by (simp add: variance_def mean_replicate fsub_def fl_0 fsum_zeros)

lemma layer_norm_row_const:
  assumes "\<bar>c\<bar> \<le> 1" "n \<le> 1024" "0 < n" "\<bar>b\<bar> \<le> 1024"
  shows "layer_norm_row (replicate n (Fin g)) (replicate n (Fin b)) (replicate n (Fin c))
    = replicate n (Fin b)"
proof -
  have e: "fl ln_eps = Fin ln_eps" by (rule fl_small) (simp add: ln_eps_def)
  have p: "0 < ln_eps" by (simp add: ln_eps_def)
  have "fadd (fmul (fdiv (fsub (Fin c) (Fin c)) (fsqrt (fadd (Fin 0) (Fin ln_eps)))) (Fin g)) (Fin b)
      = Fin b"
    using p assms(4) by (simp add: fsub_def fl_0 e fl_small)
  then show ?thesis
    using assms
    by (auto intro!: nth_equalityI simp: layer_norm_row_def mean_replicate variance_replicate)
qed

lemma relu_row_replicate: "relu_row (replicate n x) = replicate n (frelu x)"
  by (simp add: relu_row_def)

lemma example_StateEncoder_row:
  assumes "\<forall>v\<in>set x. is_finite v"
  shows "StateEncoder_row example_StateEncoder x = replicate 256 (Fin 0)"
  using assms
  by (simp add: StateEncoder_row_def example_StateEncoder_def linear_row_const_zero
      const_LayerNorm_def layer_norm_row_const relu_row_replicate is_finite_def)

lemma example_ActionEncoder_row:
  assumes "\<forall>v\<in>set x. is_finite v"
  shows "ActionEncoder_row (action_encoder example_model) x = replicate 64 (Fin 0)"
  using assms
  by (simp add: ActionEncoder_row_def example_model_def linear_row_const_zero
      const_LayerNorm_def layer_norm_row_const relu_row_replicate is_finite_def)

lemma example_raw_score:
  assumes "\<forall>v\<in>set s. is_finite v" "\<forall>v\<in>set a. is_finite v"
  shows "raw_score example_model s a = Fin 0"
proof -
  have 1: "StateEncoder_row (state_encoder example_model) s = replicate 256 (Fin 0)"
    using example_StateEncoder_row[OF assms(1)] by (simp add: example_model_def)
  show ?thesis
    unfolding raw_score_def 1 example_ActionEncoder_row[OF assms(2)]
    by (simp add: ActionScorer_row_def example_model_def linear_row_const_zero
        const_LayerNorm_def layer_norm_row_const relu_row_replicate is_finite_def)
qed

lemma example_row_value:
  assumes "\<forall>v\<in>set s. is_finite v"
  shows "row_value example_model s = Fin 0"
proof -
  have 1: "StateEncoder_row (value_state_encoder example_model) s = replicate 256 (Fin 0)"
    using example_StateEncoder_row[OF assms(1)] by (simp add: example_model_def)
  show ?thesis
    unfolding row_value_def 1
    by (simp add: ValueHead_row_def example_model_def linear_row_const_zero
        relu_row_replicate is_finite_def)
qed

lemma example_forward:
  "forward example_model example_states example_actions [[ka, kb]]
     = Inr ([[fill (Fin 0) ka, fill (Fin 0) kb]], [Fin 0])"
  unfolding forward_shaped[OF example_model_shape example_batch_shape[of "[ka, kb]"], simplified]
  by (simp add: example_states_def example_actions_def row_scores_def example_raw_score
      example_row_value is_finite_def)

section \<open>Overflow and the propagation of NaN\<close>

lemma fold_fadd_acc_PosInf:
  "fold (\<lambda>x acc. fadd acc x) (replicate n (Fin v)) PosInf = PosInf"
  by (induction n) simp_all

lemma fsum_overflow:
  assumes "4 \<le> n"
  shows "fsum (replicate n (Fin (huge / 2))) = PosInf"
proof -
  obtain k where n: "n = 4 + k" using assms by (metis le_Suc_ex)
  have 1: "fold (\<lambda>x acc. fadd acc x) (replicate 4 (Fin (huge / 2))) (Fin 0) = PosInf"
    by (simp add: numeral_eq_Suc fl_def FLT_MAX_def huge_def)
  show ?thesis
    unfolding fsum_def n replicate_add fold_append o_apply 1
    by (rule fold_fadd_acc_PosInf)
qed

lemma dot_overflow:
  assumes "4 \<le> n"
  shows "dot (replicate n (Fin huge)) (replicate n (Fin (1 / 2))) = PosInf"
proof -
  have f: "fmul (Fin huge) (Fin (1 / 2)) = Fin (huge / 2)"
    by (simp add: fl_def FLT_MAX_def huge_def)
  have "map2 fmul (replicate n (Fin huge)) (replicate n (Fin (1 / 2)))
      = replicate n (fmul (Fin huge) (Fin (1 / 2)))"
    by (simp add: zip_replicate del: fmul.simps)
  then show ?thesis
    unfolding dot_def f by (simp only: fsum_overflow[OF assms])
qed

lemma linear_row_overflow:
  assumes "4 \<le> n_in"
  shows "linear_row (const_Linear n_in n_out (1 / 2) 0) (replicate n_in (Fin huge))
    = replicate n_out PosInf"
  by (auto intro!: nth_equalityI simp: linear_row_def const_Linear_def dot_overflow[OF assms])

lemma fsum_PosInf: "0 < n \<Longrightarrow> fsum (replicate n PosInf) = PosInf"
proof -
  assume "0 < n"
  then obtain k where n: "n = Suc k" by (cases n) auto
  have "fold (\<lambda>x acc. fadd acc x) (replicate k PosInf) PosInf = PosInf"
    by (induction k) simp_all
  then show ?thesis by (simp add: fsum_def n)
qed

lemma fdiv_NaN_right: "fdiv x NaN = NaN"
  by (cases x) simp_all

lemma fmul_NaN_right: "fmul x NaN = NaN"
  by (cases x) simp_all

lemma layer_norm_row_PosInf:
  assumes "0 < n" "length w = n" "length b = n"
  shows "layer_norm_row w b (replicate n PosInf) = replicate n NaN"
proof -
  have "mean (replicate n PosInf) = PosInf"
    using assms(1) by (simp add: mean_def fsum_PosInf)
  then show ?thesis
    using assms by (auto intro!: nth_equalityI simp: layer_norm_row_def fsub_def)
qed

lemma dot_NaN:
  assumes "NaN \<in> set x" "length row = length x"
  shows "dot x row = NaN"
proof -
  from assms(1) obtain i where i: "i < length x" "x ! i = NaN" by (auto simp: in_set_conv_nth)
  have "map2 fmul x row ! i = NaN" using i assms(2) by simp
  then have "NaN \<in> set (map2 fmul x row)"
    using i(1) assms(2) nth_mem[of i "map2 fmul x row"] by simp
  then show ?thesis by (simp add: dot_def fsum_NaN)
qed

lemma linear_row_NaN:
  assumes "Linear_shape n_in n_out l" "length x = n_in" "NaN \<in> set x"
  shows "linear_row l x = replicate n_out NaN"
proof -
  from assms(1) have lW: "length (lin_weight l) = n_out"
    and rW: "\<forall>row\<in>set (lin_weight l). length row = n_in"
    and lb: "length (lin_bias l) = n_out"
    by (simp_all add: Linear_shape_def list_all_iff)
  show ?thesis
    using lW lb rW assms(2,3)
    by (auto intro!: nth_equalityI simp: linear_row_def dot_NaN)
qed

lemma layer_norm_row_NaN:
  assumes "NaN \<in> set x" "length x = n" "length w = n" "length b = n"
  shows "layer_norm_row w b x = replicate n NaN"
proof -
  have "mean x = NaN" using assms(1) by (simp add: mean_def fsum_NaN)
  then show ?thesis
    using assms
    by (auto intro!: nth_equalityI simp: layer_norm_row_def fsub_def fadd_NaN_right)
qed

lemma NaN_in_replicate: "0 < n \<Longrightarrow> NaN \<in> set (replicate n NaN)"
  by simp

lemma ActionScorer_row_NaN:
  assumes "ActionScorer_shape sc" "NaN \<in> set s" "length s = 256" "length a = 64"
  shows "ActionScorer_row sc s a = NaN"
proof -
  from assms(1) have sh: "Linear_shape (256 + 64) 128 (as_fc1 sc)" "LayerNorm_shape 128 (as_ln1 sc)"
    "Linear_shape 128 1 (as_fc2 sc)"
    by (simp_all add: ActionScorer_shape_def)
  have w: "length (ln_weight (as_ln1 sc)) = 128" "length (ln_bias (as_ln1 sc)) = 128"
    using sh(2) by (simp_all add: LayerNorm_shape_def)
  have 1: "linear_row (as_fc1 sc) (s @ a) = replicate 128 NaN"
    by (rule linear_row_NaN[OF sh(1)]) (use assms in auto)
  have 2: "layer_norm_row (ln_weight (as_ln1 sc)) (ln_bias (as_ln1 sc)) (replicate 128 NaN)
      = replicate 128 NaN"
    by (rule layer_norm_row_NaN) (simp_all add: w)
  have 3: "linear_row (as_fc2 sc) (replicate 128 NaN) = replicate 1 NaN"
    by (rule linear_row_NaN[OF sh(3)]) simp_all
  show ?thesis
    unfolding ActionScorer_row_def 1 2 relu_row_replicate frelu.simps 3 by simp
qed

lemma ValueHead_row_NaN:
  assumes "ValueHead_shape vh" "NaN \<in> set x" "length x = 256"
  shows "ValueHead_row vh x = NaN"
proof -
  from assms(1) have sh: "Linear_shape 256 128 (vh_fc1 vh)" "Linear_shape 128 1 (vh_fc2 vh)"
    by (simp_all add: ValueHead_shape_def)
  have 1: "linear_row (vh_fc1 vh) x = replicate 128 NaN"
    by (rule linear_row_NaN[OF sh(1)]) (use assms in auto)
  have 2: "linear_row (vh_fc2 vh) (replicate 128 NaN) = replicate 1 NaN"
    by (rule linear_row_NaN[OF sh(2)]) simp_all
  show ?thesis
    unfolding ValueHead_row_def 1 relu_row_replicate frelu.simps 2 by simp
qed

lemma huge_StateEncoder_row:
  "StateEncoder_row
     \<lparr>se_fc1 = const_Linear STATE_SIZE 512 (1 / 2) 0, se_ln1 = const_LayerNorm 512 1 0,
      se_fc2 = const_Linear 512 256 (1 / 2) 0, se_ln2 = const_LayerNorm 256 1 0\<rparr>
     (replicate STATE_SIZE (Fin huge)) = replicate 256 NaN"
proof -
  have 1: "linear_row (const_Linear STATE_SIZE 512 (1 / 2) 0) (replicate STATE_SIZE (Fin huge))
      = replicate 512 PosInf"
    by (rule linear_row_overflow) (simp add: STATE_SIZE_def)
  have 2: "layer_norm_row (replicate 512 (Fin 1)) (replicate 512 (Fin 0)) (replicate 512 PosInf)
      = replicate 512 NaN"
    by (rule layer_norm_row_PosInf) simp_all
  have 3: "linear_row (const_Linear 512 256 (1 / 2) 0) (replicate 512 NaN) = replicate 256 NaN"
    by (rule linear_row_NaN[OF const_Linear_shape]) simp_all
  have 4: "layer_norm_row (replicate 256 (Fin 1)) (replicate 256 (Fin 0)) (replicate 256 NaN)
      = replicate 256 NaN"
    by (rule layer_norm_row_NaN) simp_all
  show ?thesis
    by (simp add: StateEncoder_row_def const_LayerNorm_def 1 2 relu_row_replicate 3 4)
qed

lemma huge_raw_score:
  "raw_score example_fresh (replicate STATE_SIZE (Fin huge)) a = NaN"
proof -
  from example_fresh_shape have sh: "ActionEncoder_shape (action_encoder example_fresh)"
    "ActionScorer_shape (action_scorer example_fresh)"
    by (simp_all add: PolicyValueNetwork_shape_def)
  have 1: "StateEncoder_row (state_encoder example_fresh) (replicate STATE_SIZE (Fin huge))
      = replicate 256 NaN"
    using huge_StateEncoder_row by (simp add: example_fresh_def)
  show ?thesis
    unfolding raw_score_def 1
    by (rule ActionScorer_row_NaN[OF sh(2)]) (simp_all add: length_ActionEncoder_row[OF sh(1)])
qed

lemma huge_row_value:
  "row_value example_fresh (replicate STATE_SIZE (Fin huge)) = NaN"
proof -
  from example_fresh_shape have sh: "ValueHead_shape (value_head example_fresh)"
    by (simp_all add: PolicyValueNetwork_shape_def)
  have 1: "StateEncoder_row (value_state_encoder example_fresh)
      (replicate STATE_SIZE (Fin huge)) = replicate 256 NaN"
    using huge_StateEncoder_row by (simp add: example_fresh_def)
  show ?thesis
    unfolding row_value_def 1
    by (rule ValueHead_row_NaN[OF sh]) simp_all
qed

lemma huge_forward:
  "forward example_fresh huge_states example_actions [[ka, kb]]
     = Inr ([[fill NaN ka, fill NaN kb]], [NaN])"
  unfolding forward_shaped[OF example_fresh_shape huge_batch_shape[of "[ka, kb]"], simplified]
  by (simp add: huge_states_def example_actions_def row_scores_def huge_raw_score huge_row_value)

lemma softmax_NaN_row:
  assumes "NaN \<in> set row"
  shows "softmax row = replicate (length row) NaN"
proof -
  have "fold fmax row NegInf = NaN" using assms by (rule fold_fmax_NaN)
  then show ?thesis
    by (auto intro!: nth_equalityI simp: softmax_def Let_def fsub_def fadd_NaN_right)
qed

lemma huge_policy:
  "get_policy_and_value example_fresh huge_states example_actions [[ka, kb]]
     = Inr ([[NaN, NaN]], [NaN])"
proof -
  have "NaN \<in> set [fill NaN ka, fill NaN kb] \<or> [fill NaN ka, fill NaN kb] = [NegInf, NegInf]"
    by (auto simp: fill_def)
  moreover have "softmax [NegInf, NegInf] = [NaN, NaN]"
    by (simp add: softmax_def Let_def fsub_def fsum_def)
  ultimately have "softmax [fill NaN ka, fill NaN kb] = [NaN, NaN]"
    using softmax_NaN_row[of "[fill NaN ka, fill NaN kb]"] by (auto simp: numeral_2_eq_2)
  then show ?thesis
    by (simp add: get_policy_and_value_def huge_forward ebind_Inr)
qed

section \<open>The policy over the valid actions\<close>




section \<open>The range of the value\<close>

text \<open>
  The claim as stated fails: on the overflowing state the value returned is NaN.
\<close>

theorem nan_value_on_overflow:
  "huge_states = [replicate STATE_SIZE (Fin (2 ^ 127))]
   \<and> forward example_fresh huge_states example_actions [[1, 1]] = Inr ([[NaN, NaN]], [NaN])
   \<and> \<not> in_unit_interval [NaN]"
proof (intro conjI)
  show "huge_states = [replicate STATE_SIZE (Fin (2 ^ 127))]"
    by (simp add: huge_states_def huge_def)
  show "forward example_fresh huge_states example_actions [[1, 1]] = Inr ([[NaN, NaN]], [NaN])"
    using huge_forward[of 1 1] by (simp add: fill_def)
  show "\<not> in_unit_interval [NaN]" by (simp add: in_unit_interval_def)
qed

lemma row_value_bounds:
  "case row_value m s of Fin r \<Rightarrow> - 1 \<le> r \<and> r \<le> 1 | NaN \<Rightarrow> True | _ \<Rightarrow> False"
proof -
  have "case ftanh x of Fin r \<Rightarrow> - 1 \<le> r \<and> r \<le> 1 | NaN \<Rightarrow> True | _ \<Rightarrow> False" for x
    using tanh_real_gt_neg1 tanh_real_lt_1 by (cases x) (simp_all add: less_imp_le)
  then show ?thesis unfolding row_value_def ValueHead_row_def .
qed

text \<open>
  Claim C8, as the code has it. For a model with the constructor's shapes and a
  well-shaped batch, the forward pass returns one value per state, and every value is
  NaN or a finite number in \<open>[-1, 1]\<close>.
\<close>

theorem value_in_unit_interval_or_nan:
  assumes "PolicyValueNetwork_shape m"
    and "batch_shape B M states action_features action_mask"
    and "0 < B" and "0 < M"
  shows "\<exists>scores values.
    forward m states action_features action_mask = Inr (scores, values)
    \<and> length values = B \<and> in_unit_interval_or_nan values"
proof -
  have "length states = B" using assms(2) by (simp add: batch_shape_def)
  then show ?thesis
    unfolding forward_shaped[OF assms] in_unit_interval_or_nan_def
    using row_value_bounds by (simp add: list_all_iff)
qed

theorem value_in_unit_interval_or_nan_witness:
  "PolicyValueNetwork_shape example_model
   \<and> batch_shape 1 2 example_states example_actions [[1, 0]]
   \<and> (\<exists>scores values.
        forward example_model example_states example_actions [[1, 0]] = Inr (scores, values)
        \<and> length values = 1 \<and> in_unit_interval_or_nan values)"
  using value_in_unit_interval_or_nan[OF example_model_shape example_batch_shape[of "[1, 0]"]]
    example_model_shape example_batch_shape[of "[1, 0]"]
  by simp

section \<open>A single valid action, and no valid action\<close>

lemma sum_list_only:
  fixes xs :: "real list"
  assumes "i < length xs" "\<forall>j<length xs. j \<noteq> i \<longrightarrow> xs ! j = 0"
  shows "sum_list xs = xs ! i"
proof -
  have "sum_list xs = (\<Sum>j = 0..<length xs. xs ! j)" by (rule sum_list_sum_nth)
  also have "\<dots> = (\<Sum>j = 0..<length xs. if j = i then xs ! i else 0)"
    using assms(2) by (intro sum.cong) auto
  also have "\<dots> = xs ! i" using assms(1) by simp
  finally show ?thesis .
qed

lemma softmax_all_masked: "softmax (replicate n NegInf) = replicate n NaN"
proof -
  have "softmax (replicate n NegInf) =
      map (\<lambda>v. fdiv v (fsum (map (\<lambda>x. fexp (fsub x NegInf)) (replicate n NegInf))))
        (map (\<lambda>x. fexp (fsub x NegInf)) (replicate n NegInf))"
    by (simp only: softmax_def Let_def fold_fmax_NegInf)
  also have "map (\<lambda>x. fexp (fsub x NegInf)) (replicate n NegInf) = replicate n NaN"
    by (simp add: fsub_def)
  finally show ?thesis by simp
qed

lemma fill_all_masked:
  assumes "length raw = length k" "all_masked k"
  shows "map2 fill raw k = replicate (length k) NegInf"
  using assms
  by (auto intro!: nth_equalityI simp: all_masked_def list_all_iff fill_def)

lemma fold_fmax_acc_PosInf:
  assumes "\<forall>x\<in>set row. x = NegInf \<or> x = PosInf"
  shows "fold fmax row PosInf = PosInf"
  using assms by (induction row) auto

lemma fold_fmax_PosInf:
  assumes "\<forall>x\<in>set row. x = NegInf \<or> x = PosInf" "PosInf \<in> set row"
  shows "fold fmax row NegInf = PosInf"
  using assms
proof (induction row)
  case Nil then show ?case by simp
next
  case (Cons x row)
  show ?case
  proof (cases "x = PosInf")
    case True
    then show ?thesis using Cons.prems(1) by (simp add: fold_fmax_acc_PosInf)
  next
    case False
    then have "x = NegInf" "PosInf \<in> set row" using Cons.prems by auto
    then show ?thesis using Cons by simp
  qed
qed

lemma softmax_PosInf_row:
  assumes "\<forall>x\<in>set row. x = NegInf \<or> x = PosInf" "PosInf \<in> set row"
  shows "softmax row = replicate (length row) NaN"
proof -
  have mx: "fold fmax row NegInf = PosInf" using assms by (rule fold_fmax_PosInf)
  define e where "e = map (\<lambda>x. fexp (fsub x PosInf)) row"
  have "fexp (fsub PosInf PosInf) = NaN" by (simp add: fsub_def)
  then have "NaN \<in> set e" using assms(2) unfolding e_def by force
  then have s: "fsum e = NaN" by (rule fsum_NaN)
  have "softmax row = map (\<lambda>v. fdiv v NaN) e"
    by (simp only: softmax_def Let_def mx e_def[symmetric] s)
  then show ?thesis
    by (auto intro!: nth_equalityI simp: fdiv_NaN_right e_def)
qed

text \<open>
  The softmax of a row that is masked everywhere but at position \<open>i\<close>: the one-hot row
  when the score at \<open>i\<close> is finite, NaN everywhere when it is not.
\<close>

lemma softmax_one_valid:
  assumes len: "length raw = length k" and o: "only_valid k i"
  shows "softmax (map2 fill raw k)
    = (if is_finite (raw ! i) then one_hot (length k) i else replicate (length k) NaN)"
proof -
  from o have i: "i < length k" and ki: "k ! i \<noteq> 0"
    and kj: "\<And>j. j < length k \<Longrightarrow> j \<noteq> i \<Longrightarrow> k ! j = 0"
    by (auto simp: only_valid_def list_all_iff)
  define row where "row = map2 fill raw k"
  have lrow: "length row = length k" using len by (simp add: row_def)
  have ri: "row ! i = raw ! i" using i ki len by (simp add: row_def fill_def)
  have rj: "row ! j = NegInf" if "j < length k" "j \<noteq> i" for j
    using that kj[of j] len by (simp add: row_def fill_def)
  have mem: "x = NegInf \<or> x = raw ! i" if "x \<in> set row" for x
  proof -
    from that obtain j where "j < length k" "x = row ! j" using lrow by (auto simp: in_set_conv_nth)
    then show ?thesis using ri rj[of j] by (cases "j = i") auto
  qed
  have memi: "raw ! i \<in> set row" using i lrow ri nth_mem[of i row] by simp
  have "softmax row = (if is_finite (raw ! i) then one_hot (length k) i else replicate (length k) NaN)"
  proof (cases "raw ! i")
    case (Fin s)
    have sr: "score_row row"
      unfolding score_row_def list_all_iff using mem Fin by (auto split: fp.splits)
    have ex: "\<exists>t. Fin t \<in> set row" using memi Fin by auto
    obtain c where c: "Fin c \<in> set row"
      and sm: "sum_list (map (wt c) row) \<le> FLT_MAX \<longrightarrow>
          softmax row = map (\<lambda>x. Fin (wt c x / sum_list (map (wt c) row))) row"
      using softmax_scores[OF sr ex] by blast
    have cs: "c = s" using mem[OF c] Fin by simp
    have z: "wt c (row ! j) = 0" if "j < length k" "j \<noteq> i" for j
      using rj[OF that] by (simp add: wt_def)
    have wi: "wt c (row ! i) = 1" using ri Fin cs wt_max[of s] by simp
    have S: "sum_list (map (wt c) row) = 1"
      using sum_list_only[of i "map (wt c) row"] i lrow z wi by simp
    have sm': "softmax row = map (\<lambda>x. Fin (wt c x)) row"
      using sm S FLT_MAX_ge_1 by simp
    have "softmax row = one_hot (length k) i"
    proof (rule nth_equalityI)
      show "length (softmax row) = length (one_hot (length k) i)"
        using lrow by (simp add: sm' one_hot_def)
    next
      fix j assume "j < length (softmax row)"
      then have j: "j < length k" using lrow by (simp add: sm')
      show "softmax row ! j = one_hot (length k) i ! j"
      proof (cases "j = i")
        case True then show ?thesis using j lrow wi by (simp add: sm' one_hot_def)
      next
        case False then show ?thesis using j lrow z[of j] by (simp add: sm' one_hot_def)
      qed
    qed
    then show ?thesis using Fin by (simp add: is_finite_def)
  next
    case NaN
    then have "softmax row = replicate (length row) NaN"
      using memi by (intro softmax_NaN_row) simp
    then show ?thesis using NaN lrow by (simp add: is_finite_def)
  next
    case PosInf
    then have "softmax row = replicate (length row) NaN"
      using memi mem by (intro softmax_PosInf_row) auto
    then show ?thesis using PosInf lrow by (simp add: is_finite_def)
  next
    case NegInf
    then have "row = replicate (length k) NegInf"
      using mem lrow by (auto intro!: nth_equalityI)
    then show ?thesis using NegInf by (simp add: softmax_all_masked is_finite_def)
  qed
  then show ?thesis by (simp add: row_def)
qed

text \<open>
  The claim as stated fails: with exactly one valid action, whose score is NaN on the
  overflowing state, the policy is NaN at both positions and not \<open>1\<close> at the valid one.
\<close>

theorem nan_policy_for_single_valid_action:
  "huge_states = [replicate STATE_SIZE (Fin (2 ^ 127))]
   \<and> only_valid [0, 1] 1
   \<and> get_policy_and_value example_fresh huge_states example_actions [[0, 1]]
      = Inr ([[NaN, NaN]], [NaN])
   \<and> [NaN, NaN] \<noteq> one_hot 2 1"
proof (intro conjI)
  show "huge_states = [replicate STATE_SIZE (Fin (2 ^ 127))]"
    by (simp add: huge_states_def huge_def)
  show "only_valid [0, 1] 1" by (simp add: only_valid_def)
  show "get_policy_and_value example_fresh huge_states example_actions [[0, 1]]
      = Inr ([[NaN, NaN]], [NaN])"
    by (rule huge_policy)
  show "[NaN, NaN] \<noteq> one_hot 2 1" by (simp add: one_hot_def numeral_2_eq_2)
qed

text \<open>
  Claim C9, as the code has it. The softmax of a row whose mask has exactly one non-zero
  entry is \<open>1\<close> at that position and \<open>0\<close> at every other one whenever the raw score at
  that position is finite, whatever its value; when that score is NaN or infinite, the
  softmax is NaN at every position. The policy that \<^verbatim>\<open>get_policy_and_value\<close> returns for
  such a batch row is this row.
\<close>

theorem single_valid_action_policy:
  assumes "PolicyValueNetwork_shape m"
    and "batch_shape B M states action_features action_mask"
    and "0 < B" and "0 < M"
  shows "(\<forall>raw k i. length raw = length k \<and> only_valid k i \<longrightarrow>
            softmax (map2 (\<lambda>s kk. if kk = 0 then NegInf else s) raw k)
              = (if is_finite (raw ! i) then one_hot (length k) i
                 else replicate (length k) NaN))
    \<and> (\<exists>scores policy values.
          forward m states action_features action_mask = Inr (scores, values)
          \<and> get_policy_and_value m states action_features action_mask = Inr (policy, values)
          \<and> length policy = B
          \<and> (\<forall>b<B. \<forall>i. only_valid (action_mask ! b) i \<longrightarrow>
                policy ! b = (if is_finite (scores ! b ! i) then one_hot M i
                              else replicate M NaN)))"
proof -
  from assms(2) have ls: "length states = B" and la: "length action_features = B"
    and ra: "\<forall>r\<in>set action_features. length r = M"
    and lk: "length action_mask = B" and rk: "\<forall>k\<in>set action_mask. length k = M"
    by (auto simp: batch_shape_def list_all_iff)
  define scores where "scores = map (\<lambda>(s, acts, k). row_scores m s acts k)
           (zip states (zip action_features action_mask))"
  define policy where "policy = map (\<lambda>(s, acts, k). softmax (row_scores m s acts k))
           (zip states (zip action_features action_mask))"
  have f: "forward m states action_features action_mask = Inr (scores, map (row_value m) states)"
    unfolding scores_def by (rule forward_shaped[OF assms])
  have g: "get_policy_and_value m states action_features action_mask =
      Inr (policy, map (row_value m) states)"
    unfolding policy_def by (rule get_policy_and_value_shaped[OF assms])
  have lp: "length policy = B" using ls la lk by (simp add: policy_def)
  have row: "policy ! b = (if is_finite (scores ! b ! i) then one_hot M i else replicate M NaN)"
    if b: "b < B" and o: "only_valid (action_mask ! b) i" for b i
  proof -
    define raw where "raw = map (raw_score m (states ! b)) (action_features ! b)"
    have sb: "scores ! b = map2 fill raw (action_mask ! b)"
      using b ls la lk by (simp add: scores_def row_scores_def raw_def)
    have pb: "policy ! b = softmax (map2 fill raw (action_mask ! b))"
      using b ls la lk by (simp add: policy_def row_scores_def raw_def)
    have len: "length raw = length (action_mask ! b)"
      using b la lk ra rk by (simp add: raw_def)
    have M: "length (action_mask ! b) = M" using b lk rk by simp
    from o have "i < length (action_mask ! b)" "action_mask ! b ! i \<noteq> 0"
      by (auto simp: only_valid_def list_all_iff)
    then have "scores ! b ! i = raw ! i" using len by (simp add: sb fill_def)
    then show ?thesis using softmax_one_valid[OF len o] M unfolding pb by simp
  qed
  have gen: "\<forall>raw k i. length raw = length k \<and> only_valid k i \<longrightarrow>
            softmax (map2 (\<lambda>s kk. if kk = 0 then NegInf else s) raw k)
              = (if is_finite (raw ! i) then one_hot (length k) i
                 else replicate (length k) NaN)"
    using softmax_one_valid by (simp add: fill_def[abs_def])
  show ?thesis using f g lp row gen by blast
qed

theorem single_valid_action_policy_witness:
  "PolicyValueNetwork_shape example_model
   \<and> batch_shape 1 2 example_states example_actions [[0, 1]]
   \<and> only_valid [0, 1] 1
   \<and> softmax [NegInf, Fin 7] = [Fin 0, Fin 1]
   \<and> softmax [NegInf, PosInf] = [NaN, NaN]
   \<and> forward example_model example_states example_actions [[0, 1]]
      = Inr ([[NegInf, Fin 0]], [Fin 0])
   \<and> get_policy_and_value example_model example_states example_actions [[0, 1]]
      = Inr ([[Fin 0, Fin 1]], [Fin 0])"
proof -
  have o: "only_valid [0, 1] 1" by (simp add: only_valid_def)
  note t = single_valid_action_policy[OF example_model_shape example_batch_shape[of "[0, 1]"]]
  have 1: "softmax [NegInf, Fin 7] = [Fin 0, Fin 1]"
    using t[THEN conjunct1, rule_format, of "[Fin 3, Fin 7]" "[0, 1]" 1] o
    by (simp add: one_hot_def numeral_2_eq_2 is_finite_def)
  have 2: "softmax [NegInf, PosInf] = [NaN, NaN]"
    using t[THEN conjunct1, rule_format, of "[Fin 3, PosInf]" "[0, 1]" 1] o
    by (simp add: numeral_2_eq_2 is_finite_def)
  have f: "forward example_model example_states example_actions [[0, 1]]
      = Inr ([[NegInf, Fin 0]], [Fin 0])"
    by (simp add: example_forward fill_def)
  obtain scores policy vals where
    u: "forward example_model example_states example_actions [[0, 1]] = Inr (scores, vals)"
      "get_policy_and_value example_model example_states example_actions [[0, 1]]
        = Inr (policy, vals)"
      "length policy = 1"
      "\<forall>b<1. \<forall>i. only_valid ([[0, 1]] ! b) i \<longrightarrow>
          policy ! b = (if is_finite (scores ! b ! i) then one_hot 2 i else replicate 2 NaN)"
    using t[THEN conjunct2] by auto
  from u(1)[unfolded f] have "([[NegInf, Fin 0]], [Fin 0]) = (scores, vals)"
    by (simp only: sum.inject)
  then have s: "scores = [[NegInf, Fin 0]]" "vals = [Fin 0]" by blast+
  have "policy ! 0 = one_hot 2 1" using u(4) o s by (simp add: is_finite_def)
  then have "policy = [[Fin 0, Fin 1]]"
    using u(3) by (cases policy) (simp_all add: one_hot_def numeral_2_eq_2)
  then show ?thesis
    using example_model_shape example_batch_shape[of "[0, 1]"] o 1 2 f u(2) s by simp
qed

text \<open>
  Claim C10. For a model with the constructor's shapes and a well-shaped batch, the
  forward pass returns also when a mask row is all zero: every score of that row is
  \<open>-inf\<close>, and every policy entry of that row is NaN.
\<close>

theorem all_masked_row_gives_nan:
  assumes "PolicyValueNetwork_shape m"
    and "batch_shape B M states action_features action_mask"
    and "0 < B" and "0 < M"
  shows "\<exists>scores policy values.
    forward m states action_features action_mask = Inr (scores, values)
    \<and> get_policy_and_value m states action_features action_mask = Inr (policy, values)
    \<and> length scores = B \<and> length policy = B
    \<and> (\<forall>b<B. all_masked (action_mask ! b) \<longrightarrow>
          scores ! b = replicate M NegInf \<and> policy ! b = replicate M NaN)"
proof -
  from assms(2) have ls: "length states = B" and la: "length action_features = B"
    and ra: "\<forall>r\<in>set action_features. length r = M"
    and lk: "length action_mask = B" and rk: "\<forall>k\<in>set action_mask. length k = M"
    by (auto simp: batch_shape_def list_all_iff)
  define scores where "scores = map (\<lambda>(s, acts, k). row_scores m s acts k)
           (zip states (zip action_features action_mask))"
  define policy where "policy = map (\<lambda>(s, acts, k). softmax (row_scores m s acts k))
           (zip states (zip action_features action_mask))"
  have f: "forward m states action_features action_mask = Inr (scores, map (row_value m) states)"
    unfolding scores_def by (rule forward_shaped[OF assms])
  have g: "get_policy_and_value m states action_features action_mask =
      Inr (policy, map (row_value m) states)"
    unfolding policy_def by (rule get_policy_and_value_shaped[OF assms])
  have l: "length scores = B" "length policy = B"
    using ls la lk by (simp_all add: policy_def scores_def)
  have row: "scores ! b = replicate M NegInf \<and> policy ! b = replicate M NaN"
    if b: "b < B" and o: "all_masked (action_mask ! b)" for b
  proof -
    have len: "length (map (raw_score m (states ! b)) (action_features ! b)) = length (action_mask ! b)"
      using b la lk ra rk by simp
    have M: "length (action_mask ! b) = M" using b lk rk by simp
    have sb: "scores ! b = replicate M NegInf"
      using b ls la lk fill_all_masked[OF len o] M by (simp add: scores_def row_scores_def)
    have "policy ! b = softmax (scores ! b)"
      using b ls la lk by (simp add: policy_def scores_def)
    then show ?thesis using sb by (simp add: softmax_all_masked)
  qed
  show ?thesis using f g l row by blast
qed

theorem all_masked_row_gives_nan_witness:
  "PolicyValueNetwork_shape example_model
   \<and> batch_shape 1 2 example_states example_actions [[0, 0]]
   \<and> all_masked [0, 0]
   \<and> (\<exists>values.
        forward example_model example_states example_actions [[0, 0]]
          = Inr ([[NegInf, NegInf]], values)
        \<and> get_policy_and_value example_model example_states example_actions [[0, 0]]
          = Inr ([[NaN, NaN]], values))"
proof -
  have o: "all_masked [0, 0]" by (simp add: all_masked_def)
  obtain scores policy vals where
    f: "forward example_model example_states example_actions [[0, 0]] = Inr (scores, vals)"
    and g: "get_policy_and_value example_model example_states example_actions [[0, 0]] = Inr (policy, vals)"
    and l: "length scores = 1" "length policy = 1"
    and p: "scores ! 0 = replicate 2 NegInf" "policy ! 0 = replicate 2 NaN"
    using all_masked_row_gives_nan[OF example_model_shape example_batch_shape[of "[0, 0]"]] o
    by auto
  have "scores = [[NegInf, NegInf]]" using l p by (cases scores) (simp_all add: numeral_2_eq_2)
  moreover have "policy = [[NaN, NaN]]" using l p by (cases policy) (simp_all add: numeral_2_eq_2)
  ultimately show ?thesis
    using f g o example_model_shape example_batch_shape[of "[0, 0]"] by simp
qed

section \<open>What the manifest and the archive contain\<close>

lemmas named_modules_defs =
  StateEncoder_named_modules_def ActionEncoder_named_modules_def
  ActionScorer_named_modules_def ValueHead_named_modules_def

lemma manifest_state_encoder:
  "build_graph_manifest m ''state_encoder'' = Some
     [\<lparr>op = ''linear'', key = Some ''state_encoder_fc1''\<rparr>,
      \<lparr>op = ''layernorm'', key = Some ''state_encoder_ln1''\<rparr>,
      \<lparr>op = ''relu'', key = None\<rparr>,
      \<lparr>op = ''linear'', key = Some ''state_encoder_fc2''\<rparr>,
      \<lparr>op = ''layernorm'', key = Some ''state_encoder_ln2''\<rparr>,
      \<lparr>op = ''relu'', key = None\<rparr>]"
  by (simp add: build_graph_manifest_def discover_def named_modules_defs)

lemma manifest_value_state_encoder:
  "build_graph_manifest m ''value_state_encoder'' = Some
     [\<lparr>op = ''linear'', key = Some ''value_state_encoder_fc1''\<rparr>,
      \<lparr>op = ''layernorm'', key = Some ''value_state_encoder_ln1''\<rparr>,
      \<lparr>op = ''relu'', key = None\<rparr>,
      \<lparr>op = ''linear'', key = Some ''value_state_encoder_fc2''\<rparr>,
      \<lparr>op = ''layernorm'', key = Some ''value_state_encoder_ln2''\<rparr>,
      \<lparr>op = ''relu'', key = None\<rparr>]"
  by (simp add: build_graph_manifest_def discover_def named_modules_defs)

lemma manifest_action_encoder:
  "build_graph_manifest m ''action_encoder'' = Some
     [\<lparr>op = ''linear'', key = Some ''action_encoder_fc1''\<rparr>,
      \<lparr>op = ''layernorm'', key = Some ''action_encoder_ln1''\<rparr>,
      \<lparr>op = ''relu'', key = None\<rparr>,
      \<lparr>op = ''linear'', key = Some ''action_encoder_fc2''\<rparr>]"
  by (simp add: build_graph_manifest_def discover_def named_modules_defs)

lemma manifest_action_scorer:
  "build_graph_manifest m ''action_scorer'' = Some
     [\<lparr>op = ''linear'', key = Some ''action_scorer_fc1''\<rparr>,
      \<lparr>op = ''layernorm'', key = Some ''action_scorer_ln1''\<rparr>,
      \<lparr>op = ''relu'', key = None\<rparr>,
      \<lparr>op = ''linear'', key = Some ''action_scorer_fc2''\<rparr>]"
  by (simp add: build_graph_manifest_def discover_def named_modules_defs)

lemma manifest_value_head:
  "build_graph_manifest m ''value_head'' = Some
     [\<lparr>op = ''linear'', key = Some ''value_head_fc1''\<rparr>,
      \<lparr>op = ''relu'', key = None\<rparr>,
      \<lparr>op = ''linear'', key = Some ''value_head_fc2''\<rparr>,
      \<lparr>op = ''tanh'', key = None\<rparr>]"
  by (simp add: build_graph_manifest_def discover_value_head_def named_modules_defs
      fix_value_head_def linear_indices_def list_insert_def upt_rec[of _ "Suc _"] upt_rec[of _ "numeral _"])

lemmas export_defs =
  export_weights_def components_def named_modules_defs export_module_def Let_def

lemma export_state_encoder:
  "fst (export_weights m p) ''state_encoder_fc1'' =
     Some (LinearEntry (np_T (lin_weight (se_fc1 (state_encoder m)))) (lin_bias (se_fc1 (state_encoder m))))"
  "fst (export_weights m p) ''state_encoder_ln1'' =
     Some (LayerNormEntry (ln_weight (se_ln1 (state_encoder m))) (ln_bias (se_ln1 (state_encoder m))))"
  "fst (export_weights m p) ''state_encoder_fc2'' =
     Some (LinearEntry (np_T (lin_weight (se_fc2 (state_encoder m)))) (lin_bias (se_fc2 (state_encoder m))))"
  "fst (export_weights m p) ''state_encoder_ln2'' =
     Some (LayerNormEntry (ln_weight (se_ln2 (state_encoder m))) (ln_bias (se_ln2 (state_encoder m))))"
  by (simp_all add: export_defs)

lemma export_value_state_encoder:
  "fst (export_weights m p) ''value_state_encoder_fc1'' =
     Some (LinearEntry (np_T (lin_weight (se_fc1 (value_state_encoder m))))
       (lin_bias (se_fc1 (value_state_encoder m))))"
  "fst (export_weights m p) ''value_state_encoder_ln1'' =
     Some (LayerNormEntry (ln_weight (se_ln1 (value_state_encoder m)))
       (ln_bias (se_ln1 (value_state_encoder m))))"
  "fst (export_weights m p) ''value_state_encoder_fc2'' =
     Some (LinearEntry (np_T (lin_weight (se_fc2 (value_state_encoder m))))
       (lin_bias (se_fc2 (value_state_encoder m))))"
  "fst (export_weights m p) ''value_state_encoder_ln2'' =
     Some (LayerNormEntry (ln_weight (se_ln2 (value_state_encoder m)))
       (ln_bias (se_ln2 (value_state_encoder m))))"
  by (simp_all add: export_defs)

lemma export_action_encoder:
  "fst (export_weights m p) ''action_encoder_fc1'' =
     Some (LinearEntry (np_T (lin_weight (ae_fc1 (action_encoder m)))) (lin_bias (ae_fc1 (action_encoder m))))"
  "fst (export_weights m p) ''action_encoder_ln1'' =
     Some (LayerNormEntry (ln_weight (ae_ln1 (action_encoder m))) (ln_bias (ae_ln1 (action_encoder m))))"
  "fst (export_weights m p) ''action_encoder_fc2'' =
     Some (LinearEntry (np_T (lin_weight (ae_fc2 (action_encoder m)))) (lin_bias (ae_fc2 (action_encoder m))))"
  by (simp_all add: export_defs)

lemma export_action_scorer:
  "fst (export_weights m p) ''action_scorer_fc1'' =
     Some (LinearEntry (np_T (lin_weight (as_fc1 (action_scorer m)))) (lin_bias (as_fc1 (action_scorer m))))"
  "fst (export_weights m p) ''action_scorer_ln1'' =
     Some (LayerNormEntry (ln_weight (as_ln1 (action_scorer m))) (ln_bias (as_ln1 (action_scorer m))))"
  "fst (export_weights m p) ''action_scorer_fc2'' =
     Some (LinearEntry (np_T (lin_weight (as_fc2 (action_scorer m)))) (lin_bias (as_fc2 (action_scorer m))))"
  by (simp_all add: export_defs)

lemma export_value_head:
  "fst (export_weights m p) ''value_head_fc1'' =
     Some (LinearEntry (np_T (lin_weight (vh_fc1 (value_head m)))) (lin_bias (vh_fc1 (value_head m))))"
  "fst (export_weights m p) ''value_head_fc2'' =
     Some (LinearEntry (np_T (lin_weight (vh_fc2 (value_head m)))) (lin_bias (vh_fc2 (value_head m))))"
  by (simp_all add: export_defs)

lemma export_meta:
  "fst (export_weights m p) ''_meta'' =
     Some (Meta \<lparr>version = 2, state_size = STATE_SIZE, action_size = ACTION_SIZE,
                 graph = build_graph_manifest m\<rparr>)"
  by (simp add: export_defs)

section \<open>Export and load\<close>

lemma np_T_rows:
  assumes "length W = n_out" "\<forall>row\<in>set W. length row = n_in" "0 < n_out"
  shows "np_T W = map (\<lambda>j. map (\<lambda>row. row ! j) W) [0..<n_in]"
  using assms by (cases W) (simp_all add: np_T_def)

lemma rectangular_np_T: "rectangular (np_T W)"
  by (cases W) (auto simp: np_T_def rectangular_def list_all_iff upt_conv_Cons split: list.splits)

lemma np_T_np_T:
  assumes "length W = n_out" "\<forall>row\<in>set W. length row = n_in" "0 < n_out" "0 < n_in"
  shows "np_T (np_T W) = W"
proof -
  have 1: "np_T W = map (\<lambda>j. map (\<lambda>row. row ! j) W) [0..<n_in]"
    using assms(1,2,3) by (rule np_T_rows)
  have "np_T (np_T W) = map (\<lambda>j. map (\<lambda>row. row ! j) (np_T W)) [0..<n_out]"
    by (rule np_T_rows[of _ n_in]) (use assms in \<open>simp_all add: 1\<close>)
  also have "\<dots> = W"
    using assms(1,2) by (auto intro!: nth_equalityI simp: 1)
  finally show ?thesis .
qed

lemma Linear_shape_np_T_np_T:
  assumes "Linear_shape n_in n_out l" "0 < n_out" "0 < n_in"
  shows "np_T (np_T (lin_weight l)) = lin_weight l"
  using assms np_T_np_T[of "lin_weight l" n_out n_in]
  by (simp add: Linear_shape_def list_all_iff)

lemma load_linear_present:
  assumes "weights name = Some (LinearEntry K b)"
  shows "load_linear weights mdl name st =
    Inr (st\<lparr>net := mdl (\<lambda>l. l\<lparr>lin_weight := np_T K, lin_bias := b\<rparr>) (net st)\<rparr>) \<or>
    (\<not> rectangular K \<and> load_linear weights mdl name st = Inl ValueError)"
  using assms by (simp add: load_linear_def)

lemma load_linear_ok:
  assumes "weights name = Some (LinearEntry K b)" "rectangular K"
  shows "load_linear weights mdl name st =
    Inr (st\<lparr>net := mdl (\<lambda>l. l\<lparr>lin_weight := np_T K, lin_bias := b\<rparr>) (net st)\<rparr>)"
  using assms by (simp add: load_linear_def)

lemma load_layernorm_ok:
  assumes "weights name = Some (LayerNormEntry g b)"
  shows "load_layernorm weights mdl name st =
    Inr (st\<lparr>net := mdl (\<lambda>n. n\<lparr>ln_weight := g, ln_bias := b\<rparr>) (net st)\<rparr>)"
  using assms by (simp add: load_layernorm_def)

lemma load_missing:
  assumes "weights name = None"
  shows "load_linear weights mdl name st = Inl (KeyError name)"
    and "load_layernorm weights mdl' name st = Inl (KeyError name)"
  using assms by (simp_all add: load_linear_def load_layernorm_def)

lemma Linear_reload:
  assumes "Linear_shape n_in n_out l" "0 < n_out" "0 < n_in"
  shows "l'\<lparr>lin_weight := np_T (np_T (lin_weight l)), lin_bias := lin_bias l\<rparr> = l"
  using Linear_shape_np_T_np_T[OF assms] by simp

lemma LayerNorm_reload:
  assumes "LayerNorm_shape n l" "LayerNorm_shape n l'"
  shows "l'\<lparr>ln_weight := ln_weight l, ln_bias := ln_bias l\<rparr> = l"
  using assms by (simp add: LayerNorm_shape_def)

lemma load_export:
  assumes m: "PolicyValueNetwork_shape m" and f: "PolicyValueNetwork_shape fresh"
  shows "load_weights fresh (fst (export_weights m p)) q =
    (None, \<lparr>net = m, stdout = [''Loaded weights from '' @ q]\<rparr>)"
proof -
  define a where "a = fst (export_weights m p)"
  note ex = export_state_encoder[of m p] export_value_state_encoder[of m p]
    export_action_encoder[of m p] export_action_scorer[of m p] export_value_head[of m p]
  note ex' = ex[folded a_def]
  from m have sh: "StateEncoder_shape (state_encoder m)" "StateEncoder_shape (value_state_encoder m)"
    "ActionEncoder_shape (action_encoder m)" "ActionScorer_shape (action_scorer m)"
    "ValueHead_shape (value_head m)"
    by (simp_all add: PolicyValueNetwork_shape_def)
  from f have fsh: "StateEncoder_shape (state_encoder fresh)"
    "StateEncoder_shape (value_state_encoder fresh)"
    "ActionEncoder_shape (action_encoder fresh)" "ActionScorer_shape (action_scorer fresh)"
    by (simp_all add: PolicyValueNetwork_shape_def)
  have lin: "\<And>l'. l'\<lparr>lin_weight := np_T (np_T (lin_weight (se_fc1 (state_encoder m)))),
        lin_bias := lin_bias (se_fc1 (state_encoder m))\<rparr> = se_fc1 (state_encoder m)"
    "\<And>l'. l'\<lparr>lin_weight := np_T (np_T (lin_weight (se_fc2 (state_encoder m)))),
        lin_bias := lin_bias (se_fc2 (state_encoder m))\<rparr> = se_fc2 (state_encoder m)"
    "\<And>l'. l'\<lparr>lin_weight := np_T (np_T (lin_weight (se_fc1 (value_state_encoder m)))),
        lin_bias := lin_bias (se_fc1 (value_state_encoder m))\<rparr> = se_fc1 (value_state_encoder m)"
    "\<And>l'. l'\<lparr>lin_weight := np_T (np_T (lin_weight (se_fc2 (value_state_encoder m)))),
        lin_bias := lin_bias (se_fc2 (value_state_encoder m))\<rparr> = se_fc2 (value_state_encoder m)"
    "\<And>l'. l'\<lparr>lin_weight := np_T (np_T (lin_weight (ae_fc1 (action_encoder m)))),
        lin_bias := lin_bias (ae_fc1 (action_encoder m))\<rparr> = ae_fc1 (action_encoder m)"
    "\<And>l'. l'\<lparr>lin_weight := np_T (np_T (lin_weight (ae_fc2 (action_encoder m)))),
        lin_bias := lin_bias (ae_fc2 (action_encoder m))\<rparr> = ae_fc2 (action_encoder m)"
    "\<And>l'. l'\<lparr>lin_weight := np_T (np_T (lin_weight (as_fc1 (action_scorer m)))),
        lin_bias := lin_bias (as_fc1 (action_scorer m))\<rparr> = as_fc1 (action_scorer m)"
    "\<And>l'. l'\<lparr>lin_weight := np_T (np_T (lin_weight (as_fc2 (action_scorer m)))),
        lin_bias := lin_bias (as_fc2 (action_scorer m))\<rparr> = as_fc2 (action_scorer m)"
    "\<And>l'. l'\<lparr>lin_weight := np_T (np_T (lin_weight (vh_fc1 (value_head m)))),
        lin_bias := lin_bias (vh_fc1 (value_head m))\<rparr> = vh_fc1 (value_head m)"
    "\<And>l'. l'\<lparr>lin_weight := np_T (np_T (lin_weight (vh_fc2 (value_head m)))),
        lin_bias := lin_bias (vh_fc2 (value_head m))\<rparr> = vh_fc2 (value_head m)"
    using sh
    by (auto simp: StateEncoder_shape_def ActionEncoder_shape_def ActionScorer_shape_def
        ValueHead_shape_def STATE_SIZE_def ACTION_SIZE_def intro!: Linear_reload)
  have lnm: "se_ln1 (state_encoder fresh)\<lparr>ln_weight := ln_weight (se_ln1 (state_encoder m)),
        ln_bias := ln_bias (se_ln1 (state_encoder m))\<rparr> = se_ln1 (state_encoder m)"
    "se_ln2 (state_encoder fresh)\<lparr>ln_weight := ln_weight (se_ln2 (state_encoder m)),
        ln_bias := ln_bias (se_ln2 (state_encoder m))\<rparr> = se_ln2 (state_encoder m)"
    "se_ln1 (value_state_encoder fresh)\<lparr>ln_weight := ln_weight (se_ln1 (value_state_encoder m)),
        ln_bias := ln_bias (se_ln1 (value_state_encoder m))\<rparr> = se_ln1 (value_state_encoder m)"
    "se_ln2 (value_state_encoder fresh)\<lparr>ln_weight := ln_weight (se_ln2 (value_state_encoder m)),
        ln_bias := ln_bias (se_ln2 (value_state_encoder m))\<rparr> = se_ln2 (value_state_encoder m)"
    "ae_ln1 (action_encoder fresh)\<lparr>ln_weight := ln_weight (ae_ln1 (action_encoder m)),
        ln_bias := ln_bias (ae_ln1 (action_encoder m))\<rparr> = ae_ln1 (action_encoder m)"
    "as_ln1 (action_scorer fresh)\<lparr>ln_weight := ln_weight (as_ln1 (action_scorer m)),
        ln_bias := ln_bias (as_ln1 (action_scorer m))\<rparr> = as_ln1 (action_scorer m)"
    using sh fsh
    by (auto simp: StateEncoder_shape_def ActionEncoder_shape_def ActionScorer_shape_def
        intro!: LayerNorm_reload)
  have "load_weights fresh a q = (None, \<lparr>net = m, stdout = [''Loaded weights from '' @ q]\<rparr>)"
    unfolding load_weights_def
    by (simp add: ex' load_linear_def load_layernorm_def rectangular_np_T print_def lin lnm)
  then show ?thesis by (simp add: a_def)
qed

section \<open>The executor on an exported archive\<close>

lemma affine_row_np_T:
  assumes "Linear_shape n_in n_out l" "0 < n_out" "length x = n_in"
  shows "affine_row (np_T (lin_weight l)) (lin_bias l) x = linear_row l x"
proof -
  define W where "W = lin_weight l"
  from assms(1) have lW: "length W = n_out" and rW: "\<forall>row\<in>set W. length row = n_in"
    and lb: "length (lin_bias l) = n_out"
    by (simp_all add: Linear_shape_def W_def list_all_iff)
  have T: "np_T W = map (\<lambda>j. map (\<lambda>row. row ! j) W) [0..<n_in]"
    using lW rW assms(2) by (rule np_T_rows)
  have col: "map2 (\<lambda>xi krow. fmul xi (krow ! j)) x (np_T W) = map2 fmul x (W ! j)" if "j < n_out" for j
    using that lW rW assms(3) by (auto intro!: nth_equalityI simp: T)
  show ?thesis
    unfolding affine_row_def linear_row_def W_def[symmetric]
    using lW lb col by (auto intro!: nth_equalityI simp: dot_def)
qed

lemma executor_linear_np_T:
  assumes "Linear_shape n_in n_out l" "0 < n_out" "0 < n_in"
  shows "executor_linear (np_T (lin_weight l)) (lin_bias l) X = linear l X"
proof -
  define W where "W = lin_weight l"
  from assms(1) have lW: "length W = n_out" and rW: "\<forall>row\<in>set W. length row = n_in"
    and lb: "length (lin_bias l) = n_out"
    by (simp_all add: Linear_shape_def W_def list_all_iff)
  have T: "np_T W = map (\<lambda>j. map (\<lambda>row. row ! j) W) [0..<n_in]"
    using lW rW assms(2) by (rule np_T_rows)
  obtain r where r: "r \<in> set W" using lW assms(2) by (cases W) auto
  have chk: "list_all (\<lambda>x. list_all (\<lambda>row. length row = length x) W) X
      \<longleftrightarrow> (\<forall>x\<in>set X. length x = n_in)"
    using rW r by (auto simp: list_all_iff)
  show ?thesis
  proof (cases "\<forall>x\<in>set X. length x = n_in")
    case True
    then have "map (affine_row (np_T W) (lin_bias l)) X = map (linear_row l) X"
      using affine_row_np_T[OF assms(1,2)] by (simp add: W_def)
    then show ?thesis
      using True chk lW lb
      by (simp add: executor_linear_def linear_def W_def[symmetric] T list_all_iff)
  next
    case False
    then show ?thesis
      using chk lW lb
      by (auto simp: executor_linear_def linear_def W_def[symmetric] T list_all_iff)
  qed
qed

lemma executor_layernorm_shaped:
  assumes "LayerNorm_shape n l"
  shows "executor_layernorm (ln_weight l) (ln_bias l) X = layer_norm l X"
  using assms by (simp add: executor_layernorm_def layer_norm_def LayerNorm_shape_def)

lemma replay_state_encoder:
  assumes "StateEncoder_shape enc"
    and "weights ka = Some (LinearEntry (np_T (lin_weight (se_fc1 enc))) (lin_bias (se_fc1 enc)))"
    and "weights kb = Some (LayerNormEntry (ln_weight (se_ln1 enc)) (ln_bias (se_ln1 enc)))"
    and "weights kc = Some (LinearEntry (np_T (lin_weight (se_fc2 enc))) (lin_bias (se_fc2 enc)))"
    and "weights kd = Some (LayerNormEntry (ln_weight (se_ln2 enc)) (ln_bias (se_ln2 enc)))"
  shows "replay weights
     [\<lparr>op = ''linear'', key = Some ka\<rparr>, \<lparr>op = ''layernorm'', key = Some kb\<rparr>,
      \<lparr>op = ''relu'', key = None\<rparr>,
      \<lparr>op = ''linear'', key = Some kc\<rparr>, \<lparr>op = ''layernorm'', key = Some kd\<rparr>,
      \<lparr>op = ''relu'', key = None\<rparr>] X
    = StateEncoder_forward enc X"
proof -
  from assms(1) have s: "Linear_shape STATE_SIZE 512 (se_fc1 enc)" "LayerNorm_shape 512 (se_ln1 enc)"
    "Linear_shape 512 256 (se_fc2 enc)" "LayerNorm_shape 256 (se_ln2 enc)"
    by (simp_all add: StateEncoder_shape_def)
  have e: "\<And>Y. executor_linear (np_T (lin_weight (se_fc1 enc))) (lin_bias (se_fc1 enc)) Y = linear (se_fc1 enc) Y"
    "\<And>Y. executor_linear (np_T (lin_weight (se_fc2 enc))) (lin_bias (se_fc2 enc)) Y = linear (se_fc2 enc) Y"
    "\<And>Y. executor_layernorm (ln_weight (se_ln1 enc)) (ln_bias (se_ln1 enc)) Y = layer_norm (se_ln1 enc) Y"
    "\<And>Y. executor_layernorm (ln_weight (se_ln2 enc)) (ln_bias (se_ln2 enc)) Y = layer_norm (se_ln2 enc) Y"
    using s executor_linear_np_T[OF s(1)] executor_linear_np_T[OF s(3)]
      executor_layernorm_shaped[OF s(2)] executor_layernorm_shaped[OF s(4)]
    by (simp_all add: STATE_SIZE_def)
  show ?thesis
    by (simp add: apply_operation_def assms(2-) e StateEncoder_forward_def ebind_def split: sum.splits)
qed

lemma replay_action_encoder:
  assumes "ActionEncoder_shape enc"
    and "weights ka = Some (LinearEntry (np_T (lin_weight (ae_fc1 enc))) (lin_bias (ae_fc1 enc)))"
    and "weights kb = Some (LayerNormEntry (ln_weight (ae_ln1 enc)) (ln_bias (ae_ln1 enc)))"
    and "weights kc = Some (LinearEntry (np_T (lin_weight (ae_fc2 enc))) (lin_bias (ae_fc2 enc)))"
  shows "replay weights
     [\<lparr>op = ''linear'', key = Some ka\<rparr>, \<lparr>op = ''layernorm'', key = Some kb\<rparr>,
      \<lparr>op = ''relu'', key = None\<rparr>, \<lparr>op = ''linear'', key = Some kc\<rparr>] X
    = ActionEncoder_forward enc X"
proof -
  from assms(1) have s: "Linear_shape ACTION_SIZE 128 (ae_fc1 enc)" "LayerNorm_shape 128 (ae_ln1 enc)"
    "Linear_shape 128 64 (ae_fc2 enc)"
    by (simp_all add: ActionEncoder_shape_def)
  have e: "\<And>Y. executor_linear (np_T (lin_weight (ae_fc1 enc))) (lin_bias (ae_fc1 enc)) Y = linear (ae_fc1 enc) Y"
    "\<And>Y. executor_linear (np_T (lin_weight (ae_fc2 enc))) (lin_bias (ae_fc2 enc)) Y = linear (ae_fc2 enc) Y"
    "\<And>Y. executor_layernorm (ln_weight (ae_ln1 enc)) (ln_bias (ae_ln1 enc)) Y = layer_norm (ae_ln1 enc) Y"
    using s executor_linear_np_T[OF s(1)] executor_linear_np_T[OF s(3)]
      executor_layernorm_shaped[OF s(2)]
    by (simp_all add: ACTION_SIZE_def)
  show ?thesis
    by (simp add: apply_operation_def assms(2-) e ActionEncoder_forward_def ebind_def
        split: sum.splits)
qed

lemma replay_action_scorer:
  assumes "ActionScorer_shape sc"
    and "weights ka = Some (LinearEntry (np_T (lin_weight (as_fc1 sc))) (lin_bias (as_fc1 sc)))"
    and "weights kb = Some (LayerNormEntry (ln_weight (as_ln1 sc)) (ln_bias (as_ln1 sc)))"
    and "weights kc = Some (LinearEntry (np_T (lin_weight (as_fc2 sc))) (lin_bias (as_fc2 sc)))"
  shows "ebind (cat_last S A) (\<lambda>X. ebind (replay weights
     [\<lparr>op = ''linear'', key = Some ka\<rparr>, \<lparr>op = ''layernorm'', key = Some kb\<rparr>,
      \<lparr>op = ''relu'', key = None\<rparr>, \<lparr>op = ''linear'', key = Some kc\<rparr>] X) squeeze_last)
    = ActionScorer_forward sc S A"
proof -
  from assms(1) have s: "Linear_shape (256 + 64) 128 (as_fc1 sc)" "LayerNorm_shape 128 (as_ln1 sc)"
    "Linear_shape 128 1 (as_fc2 sc)"
    by (simp_all add: ActionScorer_shape_def)
  have e: "\<And>Y. executor_linear (np_T (lin_weight (as_fc1 sc))) (lin_bias (as_fc1 sc)) Y = linear (as_fc1 sc) Y"
    "\<And>Y. executor_linear (np_T (lin_weight (as_fc2 sc))) (lin_bias (as_fc2 sc)) Y = linear (as_fc2 sc) Y"
    "\<And>Y. executor_layernorm (ln_weight (as_ln1 sc)) (ln_bias (as_ln1 sc)) Y = layer_norm (as_ln1 sc) Y"
    using s executor_linear_np_T[OF s(1)] executor_linear_np_T[OF s(3)]
      executor_layernorm_shaped[OF s(2)]
    by simp_all
  show ?thesis
    by (simp add: apply_operation_def assms(2-) e ActionScorer_forward_def ebind_def
        split: sum.splits)
qed

lemma replay_value_head:
  assumes "ValueHead_shape vh"
    and "weights ka = Some (LinearEntry (np_T (lin_weight (vh_fc1 vh))) (lin_bias (vh_fc1 vh)))"
    and "weights kb = Some (LinearEntry (np_T (lin_weight (vh_fc2 vh))) (lin_bias (vh_fc2 vh)))"
  shows "ebind (replay weights
     [\<lparr>op = ''linear'', key = Some ka\<rparr>, \<lparr>op = ''relu'', key = None\<rparr>,
      \<lparr>op = ''linear'', key = Some kb\<rparr>, \<lparr>op = ''tanh'', key = None\<rparr>] X) squeeze_last
    = ValueHead_forward vh X"
proof -
  from assms(1) have s: "Linear_shape 256 128 (vh_fc1 vh)" "Linear_shape 128 1 (vh_fc2 vh)"
    by (simp_all add: ValueHead_shape_def)
  have e: "\<And>Y. executor_linear (np_T (lin_weight (vh_fc1 vh))) (lin_bias (vh_fc1 vh)) Y = linear (vh_fc1 vh) Y"
    "\<And>Y. executor_linear (np_T (lin_weight (vh_fc2 vh))) (lin_bias (vh_fc2 vh)) Y = linear (vh_fc2 vh) Y"
    using s executor_linear_np_T[OF s(1)] executor_linear_np_T[OF s(2)]
    by simp_all
  show ?thesis
    by (simp add: apply_operation_def assms(2-) e ValueHead_forward_def ebind_def
        split: sum.splits)
qed

text \<open>
  Claim C3. For a model with the constructor's shapes, the manifest built by
  \<^verbatim>\<open>_build_graph_manifest\<close> lists, for each of the five sub-networks, operations whose
  replay in order on the exported archive computes exactly what the sub-network's
  \<^verbatim>\<open>forward\<close> computes (for the scorer after concatenating its two inputs, and for the
  scorer and the value head before the final \<^verbatim>\<open>squeeze\<close>). In every sequence a \<^verbatim>\<open>relu\<close>
  follows each \<^verbatim>\<open>layernorm\<close>; the value head's sequence ends with a \<^verbatim>\<open>tanh\<close> and has no
  \<^verbatim>\<open>layernorm\<close>.
\<close>

theorem manifest_replay_is_forward:
  assumes "PolicyValueNetwork_shape m"
  shows "(\<exists>ops. build_graph_manifest m ''state_encoder'' = Some ops \<and> relu_after_layernorm ops
          \<and> (\<forall>X. replay (fst (export_weights m p)) ops X
                = StateEncoder_forward (state_encoder m) X))
    \<and> (\<exists>ops. build_graph_manifest m ''value_state_encoder'' = Some ops \<and> relu_after_layernorm ops
          \<and> (\<forall>X. replay (fst (export_weights m p)) ops X
                = StateEncoder_forward (value_state_encoder m) X))
    \<and> (\<exists>ops. build_graph_manifest m ''action_encoder'' = Some ops \<and> relu_after_layernorm ops
          \<and> (\<forall>X. replay (fst (export_weights m p)) ops X
                = ActionEncoder_forward (action_encoder m) X))
    \<and> (\<exists>ops. build_graph_manifest m ''action_scorer'' = Some ops \<and> relu_after_layernorm ops
          \<and> (\<forall>S A. ebind (cat_last S A)
                  (\<lambda>X. ebind (replay (fst (export_weights m p)) ops X) squeeze_last)
                = ActionScorer_forward (action_scorer m) S A))
    \<and> (\<exists>ops. build_graph_manifest m ''value_head'' = Some ops \<and> relu_after_layernorm ops
          \<and> ends_with_tanh_without_layernorm ops
          \<and> (\<forall>X. ebind (replay (fst (export_weights m p)) ops X) squeeze_last
                = ValueHead_forward (value_head m) X))"
proof -
  from assms have sh: "StateEncoder_shape (state_encoder m)" "StateEncoder_shape (value_state_encoder m)"
    "ActionEncoder_shape (action_encoder m)" "ActionScorer_shape (action_scorer m)"
    "ValueHead_shape (value_head m)"
    by (simp_all add: PolicyValueNetwork_shape_def)
  have 1: "\<exists>ops. build_graph_manifest m ''state_encoder'' = Some ops \<and> relu_after_layernorm ops
          \<and> (\<forall>X. replay (fst (export_weights m p)) ops X
                = StateEncoder_forward (state_encoder m) X)"
    unfolding manifest_state_encoder
    using replay_state_encoder[where weights = "fst (export_weights m p)"
        and ka = "''state_encoder_fc1''" and kb = "''state_encoder_ln1''"
        and kc = "''state_encoder_fc2''" and kd = "''state_encoder_ln2''",
        OF sh(1) export_state_encoder[of m p]]
    by simp
  have 2: "\<exists>ops. build_graph_manifest m ''value_state_encoder'' = Some ops \<and> relu_after_layernorm ops
          \<and> (\<forall>X. replay (fst (export_weights m p)) ops X
                = StateEncoder_forward (value_state_encoder m) X)"
    unfolding manifest_value_state_encoder
    using replay_state_encoder[where weights = "fst (export_weights m p)"
        and ka = "''value_state_encoder_fc1''" and kb = "''value_state_encoder_ln1''"
        and kc = "''value_state_encoder_fc2''" and kd = "''value_state_encoder_ln2''",
        OF sh(2) export_value_state_encoder[of m p]]
    by simp
  have 3: "\<exists>ops. build_graph_manifest m ''action_encoder'' = Some ops \<and> relu_after_layernorm ops
          \<and> (\<forall>X. replay (fst (export_weights m p)) ops X
                = ActionEncoder_forward (action_encoder m) X)"
    unfolding manifest_action_encoder
    using replay_action_encoder[where weights = "fst (export_weights m p)"
        and ka = "''action_encoder_fc1''" and kb = "''action_encoder_ln1''"
        and kc = "''action_encoder_fc2''", OF sh(3) export_action_encoder[of m p]]
    by simp
  have 4: "\<exists>ops. build_graph_manifest m ''action_scorer'' = Some ops \<and> relu_after_layernorm ops
          \<and> (\<forall>S A. ebind (cat_last S A)
                  (\<lambda>X. ebind (replay (fst (export_weights m p)) ops X) squeeze_last)
                = ActionScorer_forward (action_scorer m) S A)"
    unfolding manifest_action_scorer
    using replay_action_scorer[where weights = "fst (export_weights m p)"
        and ka = "''action_scorer_fc1''" and kb = "''action_scorer_ln1''"
        and kc = "''action_scorer_fc2''", OF sh(4) export_action_scorer[of m p]]
    by simp
  have 5: "\<exists>ops. build_graph_manifest m ''value_head'' = Some ops \<and> relu_after_layernorm ops
          \<and> ends_with_tanh_without_layernorm ops
          \<and> (\<forall>X. ebind (replay (fst (export_weights m p)) ops X) squeeze_last
                = ValueHead_forward (value_head m) X)"
    unfolding manifest_value_head
    using replay_value_head[where weights = "fst (export_weights m p)"
        and ka = "''value_head_fc1''" and kb = "''value_head_fc2''",
        OF sh(5) export_value_head[of m p]]
    by (simp add: ends_with_tanh_without_layernorm_def)
  show ?thesis using 1 2 3 4 5 by blast
qed

theorem manifest_replay_is_forward_witness:
  "PolicyValueNetwork_shape example_model
   \<and> replay (fst (export_weights example_model ''w.json''))
        (the (build_graph_manifest example_model ''state_encoder'')) example_states
      = StateEncoder_forward (state_encoder example_model) example_states
   \<and> relu_after_layernorm (the (build_graph_manifest example_model ''action_scorer''))
   \<and> ends_with_tanh_without_layernorm (the (build_graph_manifest example_model ''value_head''))
   \<and> ebind (replay (fst (export_weights example_model ''w.json''))
        (the (build_graph_manifest example_model ''value_head''))
        [replicate 256 (Fin 0)]) squeeze_last
      = ValueHead_forward (value_head example_model) [replicate 256 (Fin 0)]"
  using manifest_replay_is_forward[OF example_model_shape, of "''w.json''"] example_model_shape
  by auto

section \<open>Export followed by load\<close>

lemma stored_for_executor_exported:
  assumes "weights k = Some (LinearEntry (np_T (lin_weight l)) (lin_bias l))"
    and "Linear_shape n_in n_out l" "0 < n_out" "0 < n_in"
  shows "stored_for_executor weights (k, l)"
  using assms(1) executor_linear_np_T[OF assms(2-)] by (simp add: stored_for_executor_def)

lemma linear_layers_stored:
  assumes "PolicyValueNetwork_shape m"
  shows "list_all (stored_for_executor (fst (export_weights m p))) (linear_layers m)"
proof -
  from assms have sh: "StateEncoder_shape (state_encoder m)" "StateEncoder_shape (value_state_encoder m)"
    "ActionEncoder_shape (action_encoder m)" "ActionScorer_shape (action_scorer m)"
    "ValueHead_shape (value_head m)"
    by (simp_all add: PolicyValueNetwork_shape_def)
  have ll: "linear_layers m =
     [(''state_encoder_fc1'', se_fc1 (state_encoder m)),
      (''state_encoder_fc2'', se_fc2 (state_encoder m)),
      (''value_state_encoder_fc1'', se_fc1 (value_state_encoder m)),
      (''value_state_encoder_fc2'', se_fc2 (value_state_encoder m)),
      (''action_encoder_fc1'', ae_fc1 (action_encoder m)),
      (''action_encoder_fc2'', ae_fc2 (action_encoder m)),
      (''action_scorer_fc1'', as_fc1 (action_scorer m)),
      (''action_scorer_fc2'', as_fc2 (action_scorer m)),
      (''value_head_fc1'', vh_fc1 (value_head m)),
      (''value_head_fc2'', vh_fc2 (value_head m))]"
    by (simp add: linear_layers_def components_def named_modules_defs)
  show ?thesis
    unfolding ll using sh
    by (auto simp: StateEncoder_shape_def ActionEncoder_shape_def ActionScorer_shape_def
        ValueHead_shape_def STATE_SIZE_def ACTION_SIZE_def
        export_state_encoder export_value_state_encoder export_action_encoder
        export_action_scorer export_value_head
        intro!: stored_for_executor_exported)
qed

text \<open>
  Claim C2. Loading the archive that \<^verbatim>\<open>export_weights\<close> wrote for a model into a freshly
  constructed model succeeds and makes the loaded model equal to the exported one, so
  that its forward pass and its policy agree with the original's on every input. Every
  kernel of the archive is stored so that the executor's \<open>input \<cdot> kernel + bias\<close> is the
  layer's output.
\<close>

theorem export_load_round_trip:
  assumes "PolicyValueNetwork_shape m" and "PolicyValueNetwork_shape fresh"
  shows "load_weights fresh (fst (export_weights m p)) p
      = (None, \<lparr>net = m, stdout = [''Loaded weights from '' @ p]\<rparr>)
    \<and> list_all (stored_for_executor (fst (export_weights m p))) (linear_layers m)
    \<and> (\<forall>states action_features action_mask.
          forward (net (snd (load_weights fresh (fst (export_weights m p)) p)))
              states action_features action_mask
            = forward m states action_features action_mask
          \<and> get_policy_and_value (net (snd (load_weights fresh (fst (export_weights m p)) p)))
              states action_features action_mask
            = get_policy_and_value m states action_features action_mask)"
  using load_export[OF assms, of p p] linear_layers_stored[OF assms(1), of p] by simp

theorem export_load_round_trip_witness:
  "PolicyValueNetwork_shape example_model \<and> PolicyValueNetwork_shape example_fresh
   \<and> load_weights example_fresh (fst (export_weights example_model ''w.json'')) ''w.json''
      = (None, \<lparr>net = example_model, stdout = [''Loaded weights from w.json'']\<rparr>)
   \<and> forward (net (snd (load_weights example_fresh
          (fst (export_weights example_model ''w.json'')) ''w.json'')))
        example_states example_actions [[1, 0]]
      = forward example_model example_states example_actions [[1, 0]]"
  using export_load_round_trip[OF example_model_shape example_fresh_shape, of "''w.json''"]
    example_model_shape example_fresh_shape
  by simp

section \<open>Loading: the version field and missing keys\<close>

lemma load_linear_other_key:
  "k \<noteq> k' \<Longrightarrow> load_linear (weights(k' := x)) mdl k = load_linear weights mdl k"
  by (rule ext) (simp add: load_linear_def)

lemma load_layernorm_other_key:
  "k \<noteq> k' \<Longrightarrow> load_layernorm (weights(k' := x)) mdl k = load_layernorm weights mdl k"
  by (rule ext) (simp add: load_layernorm_def)

lemma load_weights_ignores_meta:
  "load_weights model (weights(''_meta'' := x)) path = load_weights model weights path"
  unfolding load_weights_def
  by (simp add: load_linear_other_key load_layernorm_other_key cong: if_cong)

text \<open>
  Claim C4, as the code has it. \<^verbatim>\<open>load_weights\<close> never reads the metadata: whatever is
  stored under \<^verbatim>\<open>_meta\<close>, a version of any value or nothing at all, the outcome of the
  load is the one for the same parameter entries with any other metadata.
\<close>

theorem load_weights_outcome_independent_of_version:
  "load_weights model (weights(''_meta'' \<mapsto> Meta mt)) path
     = load_weights model (weights(''_meta'' \<mapsto> Meta mt')) path"
  by (simp only: load_weights_ignores_meta)

theorem load_weights_outcome_independent_of_version_witness:
  "load_weights example_fresh unknown_version_archive ''w.json''
     = load_weights example_fresh
         ((fst (export_weights example_model ''w.json''))
            (''_meta'' \<mapsto> Meta \<lparr>version = 2, state_size = STATE_SIZE,
               action_size = ACTION_SIZE, graph = build_graph_manifest example_model\<rparr>))
         ''w.json''"
  unfolding unknown_version_archive_def
  by (rule load_weights_outcome_independent_of_version)

text \<open>
  The claim as stated fails: the archive exported for the example model, with its version
  replaced by the unknown \<open>99\<close>, is loaded without any error.
\<close>

theorem unknown_version_is_loaded:
  "unknown_version_archive ''_meta''
     = Some (Meta \<lparr>version = 99, state_size = STATE_SIZE, action_size = ACTION_SIZE,
                   graph = build_graph_manifest example_model\<rparr>)
   \<and> load_weights example_fresh unknown_version_archive ''w.json''
     = (None, \<lparr>net = example_model, stdout = [''Loaded weights from w.json'']\<rparr>)"
proof -
  have "load_weights example_fresh unknown_version_archive ''w.json''
      = load_weights example_fresh (fst (export_weights example_model ''w.json'')) ''w.json''"
    unfolding unknown_version_archive_def by (rule load_weights_ignores_meta)
  then show ?thesis
    using load_export[OF example_model_shape example_fresh_shape, of "''w.json''" "''w.json''"]
    by (simp add: unknown_version_archive_def)
qed

lemma exec_append:
  "exec (cs @ ds) st = (case exec cs st of (None, st') \<Rightarrow> exec ds st' | r \<Rightarrow> r)"
  by (induction cs arbitrary: st) (auto split: sum.splits)

lemma exec_fails:
  assumes "c \<in> set cs" "\<forall>st. \<exists>e. c st = Inl e"
  shows "\<exists>e st'. exec cs st = (Some e, st')"
  using assms(1)
proof (induction cs arbitrary: st)
  case Nil then show ?case by simp
next
  case (Cons d cs)
  show ?case
  proof (cases "d st")
    case (Inl e) then show ?thesis by simp
  next
    case (Inr st')
    then have "c \<noteq> d" using assms(2) by (metis sum.distinct(1))
    then have "c \<in> set cs" using Cons.prems by simp
    then show ?thesis using Cons.IH[of st'] Inr by simp
  qed
qed

lemma load_weights_missing_linear:
  assumes "k \<in> set mandatory_linear_keys" "weights k = None"
  shows "\<exists>e st. load_weights model weights path = (Some e, st)"
proof -
  have f: "\<forall>st. \<exists>e. load_linear weights mdl k st = Inl e" for mdl
    using assms(2) by (simp add: load_linear_def)
  obtain mdl where "load_linear weights mdl k \<in> set
       ([load_linear weights (state_encoder_update \<circ> se_fc1_update) ''state_encoder_fc1'',
         load_layernorm weights (state_encoder_update \<circ> se_ln1_update) ''state_encoder_ln1'',
         load_linear weights (state_encoder_update \<circ> se_fc2_update) ''state_encoder_fc2'',
         load_layernorm weights (state_encoder_update \<circ> se_ln2_update) ''state_encoder_ln2'']
        @ (if weights ''value_state_encoder_fc1'' \<noteq> None
           then
             [load_linear weights (value_state_encoder_update \<circ> se_fc1_update)
                ''value_state_encoder_fc1'',
              load_layernorm weights (value_state_encoder_update \<circ> se_ln1_update)
                ''value_state_encoder_ln1'',
              load_linear weights (value_state_encoder_update \<circ> se_fc2_update)
                ''value_state_encoder_fc2'',
              load_layernorm weights (value_state_encoder_update \<circ> se_ln2_update)
                ''value_state_encoder_ln2'']
           else
             [print ''  Note: value_state_encoder not found in weights, using random init''])
        @ [load_linear weights (action_encoder_update \<circ> ae_fc1_update) ''action_encoder_fc1'',
           load_layernorm weights (action_encoder_update \<circ> ae_ln1_update) ''action_encoder_ln1'',
           load_linear weights (action_encoder_update \<circ> ae_fc2_update) ''action_encoder_fc2'',
           load_linear weights (action_scorer_update \<circ> as_fc1_update) ''action_scorer_fc1'',
           load_layernorm weights (action_scorer_update \<circ> as_ln1_update) ''action_scorer_ln1'',
           load_linear weights (action_scorer_update \<circ> as_fc2_update) ''action_scorer_fc2'',
           load_linear weights (value_head_update \<circ> vh_fc1_update) ''value_head_fc1'',
           load_linear weights (value_head_update \<circ> vh_fc2_update) ''value_head_fc2'',
           print (''Loaded weights from '' @ path)])"
    using assms(1) unfolding mandatory_linear_keys_def by fastforce
  then show ?thesis
    unfolding load_weights_def using f by (rule exec_fails)
qed

lemma load_weights_missing_layernorm:
  assumes "k \<in> set mandatory_layernorm_keys" "weights k = None"
  shows "\<exists>e st. load_weights model weights path = (Some e, st)"
proof -
  have f: "\<forall>st. \<exists>e. load_layernorm weights mdl k st = Inl e" for mdl
    using assms(2) by (simp add: load_layernorm_def)
  obtain mdl where "load_layernorm weights mdl k \<in> set
       ([load_linear weights (state_encoder_update \<circ> se_fc1_update) ''state_encoder_fc1'',
         load_layernorm weights (state_encoder_update \<circ> se_ln1_update) ''state_encoder_ln1'',
         load_linear weights (state_encoder_update \<circ> se_fc2_update) ''state_encoder_fc2'',
         load_layernorm weights (state_encoder_update \<circ> se_ln2_update) ''state_encoder_ln2'']
        @ (if weights ''value_state_encoder_fc1'' \<noteq> None
           then
             [load_linear weights (value_state_encoder_update \<circ> se_fc1_update)
                ''value_state_encoder_fc1'',
              load_layernorm weights (value_state_encoder_update \<circ> se_ln1_update)
                ''value_state_encoder_ln1'',
              load_linear weights (value_state_encoder_update \<circ> se_fc2_update)
                ''value_state_encoder_fc2'',
              load_layernorm weights (value_state_encoder_update \<circ> se_ln2_update)
                ''value_state_encoder_ln2'']
           else
             [print ''  Note: value_state_encoder not found in weights, using random init''])
        @ [load_linear weights (action_encoder_update \<circ> ae_fc1_update) ''action_encoder_fc1'',
           load_layernorm weights (action_encoder_update \<circ> ae_ln1_update) ''action_encoder_ln1'',
           load_linear weights (action_encoder_update \<circ> ae_fc2_update) ''action_encoder_fc2'',
           load_linear weights (action_scorer_update \<circ> as_fc1_update) ''action_scorer_fc1'',
           load_layernorm weights (action_scorer_update \<circ> as_ln1_update) ''action_scorer_ln1'',
           load_linear weights (action_scorer_update \<circ> as_fc2_update) ''action_scorer_fc2'',
           load_linear weights (value_head_update \<circ> vh_fc1_update) ''value_head_fc1'',
           load_linear weights (value_head_update \<circ> vh_fc2_update) ''value_head_fc2'',
           print (''Loaded weights from '' @ path)])"
    using assms(1) unfolding mandatory_layernorm_keys_def by fastforce
  then show ?thesis
    unfolding load_weights_def using f by (rule exec_fails)
qed

lemma linear_entry_okD:
  "linear_entry_ok weights k \<Longrightarrow> \<exists>K b. weights k = Some (LinearEntry K b) \<and> rectangular K"
  by (auto simp: linear_entry_ok_def split: option.splits entry.splits)

lemma layernorm_entry_okD:
  "layernorm_entry_ok weights k \<Longrightarrow> \<exists>g b. weights k = Some (LayerNormEntry g b)"
  by (auto simp: layernorm_entry_ok_def split: option.splits entry.splits)

lemma load_weights_fallback:
  assumes lin: "list_all (linear_entry_ok weights) mandatory_linear_keys"
    and lnm: "list_all (layernorm_entry_ok weights) mandatory_layernorm_keys"
    and vse: "weights ''value_state_encoder_fc1'' = None"
  shows "\<exists>st. load_weights model weights path = (None, st)
    \<and> value_state_encoder (net st) = value_state_encoder model
    \<and> stdout st = [fallback_notice, ''Loaded weights from '' @ path]"
proof -
  have e: "\<exists>K b. weights k = Some (LinearEntry K b) \<and> rectangular K"
    if "k \<in> set mandatory_linear_keys" for k
    using lin that linear_entry_okD[of weights k] by (auto simp: list_all_iff)
  have e': "\<exists>g b. weights k = Some (LayerNormEntry g b)"
    if "k \<in> set mandatory_layernorm_keys" for k
    using lnm that layernorm_entry_okD[of weights k] by (auto simp: list_all_iff)
  obtain K1 b1 where l1: "weights ''state_encoder_fc1'' = Some (LinearEntry K1 b1)" "rectangular K1"
    using e[of "''state_encoder_fc1''"] by (auto simp: mandatory_linear_keys_def)
  obtain K2 b2 where l2: "weights ''state_encoder_fc2'' = Some (LinearEntry K2 b2)" "rectangular K2"
    using e[of "''state_encoder_fc2''"] by (auto simp: mandatory_linear_keys_def)
  obtain K3 b3 where l3: "weights ''action_encoder_fc1'' = Some (LinearEntry K3 b3)" "rectangular K3"
    using e[of "''action_encoder_fc1''"] by (auto simp: mandatory_linear_keys_def)
  obtain K4 b4 where l4: "weights ''action_encoder_fc2'' = Some (LinearEntry K4 b4)" "rectangular K4"
    using e[of "''action_encoder_fc2''"] by (auto simp: mandatory_linear_keys_def)
  obtain K5 b5 where l5: "weights ''action_scorer_fc1'' = Some (LinearEntry K5 b5)" "rectangular K5"
    using e[of "''action_scorer_fc1''"] by (auto simp: mandatory_linear_keys_def)
  obtain K6 b6 where l6: "weights ''action_scorer_fc2'' = Some (LinearEntry K6 b6)" "rectangular K6"
    using e[of "''action_scorer_fc2''"] by (auto simp: mandatory_linear_keys_def)
  obtain K7 b7 where l7: "weights ''value_head_fc1'' = Some (LinearEntry K7 b7)" "rectangular K7"
    using e[of "''value_head_fc1''"] by (auto simp: mandatory_linear_keys_def)
  obtain K8 b8 where l8: "weights ''value_head_fc2'' = Some (LinearEntry K8 b8)" "rectangular K8"
    using e[of "''value_head_fc2''"] by (auto simp: mandatory_linear_keys_def)
  obtain g1 c1 where n1: "weights ''state_encoder_ln1'' = Some (LayerNormEntry g1 c1)"
    using e'[of "''state_encoder_ln1''"] by (auto simp: mandatory_layernorm_keys_def)
  obtain g2 c2 where n2: "weights ''state_encoder_ln2'' = Some (LayerNormEntry g2 c2)"
    using e'[of "''state_encoder_ln2''"] by (auto simp: mandatory_layernorm_keys_def)
  obtain g3 c3 where n3: "weights ''action_encoder_ln1'' = Some (LayerNormEntry g3 c3)"
    using e'[of "''action_encoder_ln1''"] by (auto simp: mandatory_layernorm_keys_def)
  obtain g4 c4 where n4: "weights ''action_scorer_ln1'' = Some (LayerNormEntry g4 c4)"
    using e'[of "''action_scorer_ln1''"] by (auto simp: mandatory_layernorm_keys_def)
  show ?thesis
    unfolding load_weights_def
    by (simp add: vse l1 l2 l3 l4 l5 l6 l7 l8 n1 n2 n3 n4 load_linear_def load_layernorm_def
        print_def fallback_notice_def)
qed

text \<open>
  Claim C6. When every key that \<^verbatim>\<open>load_weights\<close> reads unconditionally holds a usable
  entry and the keys of the value-path state encoder are absent, the load raises nothing,
  leaves \<^verbatim>\<open>value_state_encoder\<close> as it was in the fresh model, and prints the notice.
  When a key of \<^verbatim>\<open>state_encoder\<close>, \<^verbatim>\<open>action_encoder\<close>, \<^verbatim>\<open>action_scorer\<close> or
  \<^verbatim>\<open>value_head\<close> is absent, the load raises.
\<close>

theorem optional_value_state_encoder:
  "(list_all (linear_entry_ok weights) mandatory_linear_keys
      \<and> list_all (layernorm_entry_ok weights) mandatory_layernorm_keys
      \<and> list_all (\<lambda>k. weights k = None) value_state_encoder_keys
    \<longrightarrow> (\<exists>st. load_weights model weights path = (None, st)
          \<and> value_state_encoder (net st) = value_state_encoder model
          \<and> stdout st = [fallback_notice, ''Loaded weights from '' @ path]))
   \<and> (\<forall>k\<in>set (mandatory_linear_keys @ mandatory_layernorm_keys).
        weights k = None \<longrightarrow> (\<exists>e st. load_weights model weights path = (Some e, st)))"
proof (intro conjI impI ballI)
  assume "list_all (linear_entry_ok weights) mandatory_linear_keys
      \<and> list_all (layernorm_entry_ok weights) mandatory_layernorm_keys
      \<and> list_all (\<lambda>k. weights k = None) value_state_encoder_keys"
  then show "\<exists>st. load_weights model weights path = (None, st)
          \<and> value_state_encoder (net st) = value_state_encoder model
          \<and> stdout st = [fallback_notice, ''Loaded weights from '' @ path]"
    by (intro load_weights_fallback) (simp_all add: value_state_encoder_keys_def)
next
  fix k assume "k \<in> set (mandatory_linear_keys @ mandatory_layernorm_keys)" "weights k = None"
  then show "\<exists>e st. load_weights model weights path = (Some e, st)"
    using load_weights_missing_linear load_weights_missing_layernorm by auto
qed

theorem optional_value_state_encoder_witness:
  "list_all (linear_entry_ok
       (without_value_state_encoder (fst (export_weights example_model ''w.json''))))
     mandatory_linear_keys
   \<and> list_all (layernorm_entry_ok
       (without_value_state_encoder (fst (export_weights example_model ''w.json''))))
     mandatory_layernorm_keys
   \<and> list_all (\<lambda>k. without_value_state_encoder (fst (export_weights example_model ''w.json'')) k
       = None) value_state_encoder_keys
   \<and> (\<exists>st. load_weights example_fresh
          (without_value_state_encoder (fst (export_weights example_model ''w.json''))) ''w.json''
          = (None, st)
        \<and> value_state_encoder (net st) = value_state_encoder example_fresh
        \<and> stdout st = [fallback_notice, ''Loaded weights from w.json''])
   \<and> ''value_head_fc2'' \<in> set (mandatory_linear_keys @ mandatory_layernorm_keys)
   \<and> (\<exists>e st. load_weights example_fresh
          ((fst (export_weights example_model ''w.json''))(''value_head_fc2'' := None)) ''w.json''
          = (Some e, st))"
proof -
  define a where "a = without_value_state_encoder (fst (export_weights example_model ''w.json''))"
  have 1: "list_all (linear_entry_ok a) mandatory_linear_keys"
    by (simp add: a_def without_value_state_encoder_def mandatory_linear_keys_def
        linear_entry_ok_def rectangular_np_T export_state_encoder export_action_encoder
        export_action_scorer export_value_head)
  have 2: "list_all (layernorm_entry_ok a) mandatory_layernorm_keys"
    by (simp add: a_def without_value_state_encoder_def mandatory_layernorm_keys_def
        layernorm_entry_ok_def export_state_encoder export_action_encoder
        export_action_scorer)
  have 3: "list_all (\<lambda>k. a k = None) value_state_encoder_keys"
    by (simp add: a_def without_value_state_encoder_def value_state_encoder_keys_def)
  have 4: "''value_head_fc2'' \<in> set (mandatory_linear_keys @ mandatory_layernorm_keys)"
    by (simp add: mandatory_linear_keys_def)
  note t1 = optional_value_state_encoder[of a example_fresh "''w.json''", THEN conjunct1]
  note t2 = optional_value_state_encoder[of
      "(fst (export_weights example_model ''w.json''))(''value_head_fc2'' := None)"
      example_fresh "''w.json''", THEN conjunct2]
  have 5: "\<exists>st. load_weights example_fresh a ''w.json'' = (None, st)
        \<and> value_state_encoder (net st) = value_state_encoder example_fresh
        \<and> stdout st = [fallback_notice, ''Loaded weights from w.json'']"
    using t1 1 2 3 by simp
  have 6: "\<exists>e st. load_weights example_fresh
          ((fst (export_weights example_model ''w.json''))(''value_head_fc2'' := None)) ''w.json''
          = (Some e, st)"
    using t2[rule_format, OF 4] by simp
  show ?thesis using 1 2 3 4 5 6 unfolding a_def by blast
qed

section \<open>The order of the layers in the encoders\<close>

lemma example_StateEncoder_forward:
  "StateEncoder_forward example_StateEncoder example_states = Inr [replicate 256 (Fin 0)]"
  using StateEncoder_forward_shaped[OF example_StateEncoder_shape, of example_states]
  by (simp add: example_states_def example_StateEncoder_row is_finite_def)

lemma example_encoder_as_claimed:
  "encoder_as_claimed (se_fc1 example_StateEncoder) (se_ln1 example_StateEncoder)
     (se_fc2 example_StateEncoder) example_states = Inr [replicate 256 (Fin (- 1))]"
proof -
  have f: "se_fc1 example_StateEncoder = const_Linear STATE_SIZE 512 0 0"
    "se_ln1 example_StateEncoder = const_LayerNorm 512 1 0"
    "se_fc2 example_StateEncoder = const_Linear 512 256 0 (- 1)"
    by (simp_all add: example_StateEncoder_def)
  have 1: "linear (const_Linear STATE_SIZE 512 0 0) example_states = Inr [replicate 512 (Fin 0)]"
    using linear_shaped[OF const_Linear_shape, of example_states STATE_SIZE 512 0 0]
    by (simp add: example_states_def linear_row_const_zero is_finite_def)
  have 2: "layer_norm (const_LayerNorm 512 1 0) [replicate 512 (Fin 0)]
      = Inr [replicate 512 (Fin 0)]"
    using layer_norm_shaped[OF const_LayerNorm_shape, of "[replicate 512 (Fin 0)]" 512 1 0]
    by (simp add: const_LayerNorm_def layer_norm_row_const)
  have 3: "linear (const_Linear 512 256 0 (- 1)) (relu [replicate 512 (Fin 0)])
      = Inr [replicate 256 (Fin (- 1))]"
    using linear_shaped[OF const_Linear_shape, of "relu [replicate 512 (Fin 0)]" 512 256 0 "- 1"]
    by (simp add: relu_def relu_row_replicate linear_row_const_zero is_finite_def)
  show ?thesis
    unfolding encoder_as_claimed_def f 1 ebind_Inr 2 3 ..
qed

text \<open>
  The claim as stated fails for the state encoders: on the example encoder, whose last
  affine layer outputs \<open>-1\<close> everywhere, \<^verbatim>\<open>StateEncoder.forward\<close> returns zeros, because
  \<^verbatim>\<open>ln2\<close> and \<^verbatim>\<open>relu\<close> are applied after the last affine layer.
\<close>

theorem state_encoder_normalizes_after_last_affine:
  "StateEncoder_forward example_StateEncoder example_states = Inr [replicate 256 (Fin 0)]
   \<and> encoder_as_claimed (se_fc1 example_StateEncoder) (se_ln1 example_StateEncoder)
        (se_fc2 example_StateEncoder) example_states = Inr [replicate 256 (Fin (- 1))]
   \<and> StateEncoder_forward example_StateEncoder example_states
      \<noteq> encoder_as_claimed (se_fc1 example_StateEncoder) (se_ln1 example_StateEncoder)
          (se_fc2 example_StateEncoder) example_states"
  unfolding example_StateEncoder_forward example_encoder_as_claimed
  by simp

lemma frelu_nonnegative:
  "case frelu x of Fin r \<Rightarrow> 0 \<le> r | NegInf \<Rightarrow> False | _ \<Rightarrow> True"
  by (cases x) simp_all

lemma StateEncoder_forward_nonnegative:
  assumes "StateEncoder_forward enc X = Inr Y"
  shows "nonnegative Y"
  using assms frelu_nonnegative
  by (auto simp: StateEncoder_forward_def ebind_def nonnegative_def relu_def relu_row_def
      list_all_iff split: sum.splits)

text \<open>
  Claim C5, as the code has it. In the action encoder the first affine layer is followed
  by the normalization and the rectifying nonlinearity and the last affine layer by
  nothing. In a state encoder (both are instances of \<^verbatim>\<open>StateEncoder\<close>) the last affine
  layer too is followed by a normalization and the rectifying nonlinearity, so that no
  entry of its output is negative.
\<close>

theorem encoder_layer_order:
  "(\<forall>X. ActionEncoder_forward ae X
          = encoder_as_claimed (ae_fc1 ae) (ae_ln1 ae) (ae_fc2 ae) X)
   \<and> (\<forall>X. StateEncoder_forward se X
          = ebind (encoder_as_claimed (se_fc1 se) (se_ln1 se) (se_fc2 se) X) (\<lambda>c.
            ebind (layer_norm (se_ln2 se) c) (\<lambda>d. Inr (relu d))))
   \<and> (\<forall>X Y. StateEncoder_forward se X = Inr Y \<longrightarrow> nonnegative Y)"
proof (intro conjI allI impI)
  fix X
  show "ActionEncoder_forward ae X = encoder_as_claimed (ae_fc1 ae) (ae_ln1 ae) (ae_fc2 ae) X"
    by (simp add: ActionEncoder_forward_def encoder_as_claimed_def)
  show "StateEncoder_forward se X
          = ebind (encoder_as_claimed (se_fc1 se) (se_ln1 se) (se_fc2 se) X) (\<lambda>c.
            ebind (layer_norm (se_ln2 se) c) (\<lambda>d. Inr (relu d)))"
    by (simp add: StateEncoder_forward_def encoder_as_claimed_def ebind_def split: sum.splits)
next
  fix X Y assume "StateEncoder_forward se X = Inr Y"
  then show "nonnegative Y" by (rule StateEncoder_forward_nonnegative)
qed

theorem encoder_layer_order_witness:
  "StateEncoder_forward example_StateEncoder example_states = Inr [replicate 256 (Fin 0)]
   \<and> nonnegative [replicate 256 (Fin 0)]
   \<and> ActionEncoder_forward (action_encoder example_model) [replicate ACTION_SIZE (Fin 0)]
      = encoder_as_claimed (ae_fc1 (action_encoder example_model))
          (ae_ln1 (action_encoder example_model)) (ae_fc2 (action_encoder example_model))
          [replicate ACTION_SIZE (Fin 0)]"
  using encoder_layer_order[of "action_encoder example_model" example_StateEncoder]
    example_StateEncoder_forward
  by blast

end
